theory Spec2Isabelle
  imports Main "HOL-Library.Sublist"
begin

section \<open>Exceptions, the world and effects\<close>

text \<open>
  The harness is Python code that sequences calls into client libraries and catches what
  they raise. Every function of the source is modelled as a function from the world to a
  result and the world after it; the result is either a raised exception or a value.

  Python distinguishes exceptions that derive from \<open>Exception\<close> (caught by
  \<open>except Exception\<close>) from those that derive from \<open>BaseException\<close> only.
  \<open>pytest.fail\<close> raises \<open>Failed\<close>, which is of the second kind.
  \<open>Unmodelled\<close> marks a call into code that the repository does not contain; no
  handler catches it. An exception
  object is its class and its \<open>str()\<close> form. Strings are byte strings (ASCII, or UTF-8
  for anything beyond it), so the text written to a file and the bytes read back agree.
\<close>

datatype exc_class =
    AttributeError | AssertionError | FileNotFoundError | IsADirectoryError
  | NotADirectoryError | FileExistsError | LibraryError

datatype exc = Exc exc_class string

datatype raised = Raise exc | Fail string | Unmodelled string

fun str_exc :: "exc \<Rightarrow> string" where
  "str_exc (Exc c s) = s"

datatype fsnode = File string | Dir

datatype attachment_type = TEXT | JSON | XML | HTML | CSV | PNG

datatype By = NAME | ID | PATH | TAG | LAYER | TEXT_BY | COMPONENT

record datetime =
  year :: nat
  month :: nat
  day :: nat
  hour :: nat
  minute :: nat
  second :: nat

datatype alt_driver = AltDriver string int string

datatype capval = CapStr string | CapInt int | CapBool bool

datatype appium_driver = AppiumRemote string "(string \<times> capval) list"

datatype selenium_driver = Chrome "string list"

text \<open>
  Calls made on the client libraries, in the order they are made. A call is recorded when
  it is made, whether or not it then raises.
\<close>

datatype event =
    AltDriver_init string int string
  | AppiumRemote_init string "(string \<times> capval) list"
  | Chrome_init "string list"
  | Chrome_get string
  | AltDriver_stop
  | Chrome_quit
  | AppiumRemote_quit
  | AltDriver_add_notification_listener
  | AltDriver_get_png_screenshot string
  | AltDriver_find_object By string
  | AltDriver_wait_for_object By string string string
  | AltObject_click string

record alt_object =
  obj_name :: string
  enabled :: bool

record DriverContainer =
  alt_driver :: "alt_driver option"
  appium_driver :: "appium_driver option"
  selenium_driver :: "selenium_driver option"

text \<open>
  The world: the class attribute \<open>Reporter.alt_driver\<close>, the attribute
  \<open>drivers\<close> of the test class, what was printed, the steps and
  attachments handed to the report sink, the file system (a map from path to node; a file
  is written only where the directory that holds it is there), the calls made on the client
  libraries, and the clock. The functions of the harness read the clock and never set it.
\<close>

record world =
  Reporter_alt_driver :: "alt_driver option"
  cls_drivers :: "DriverContainer option"
  stdout :: "string list"
  allure_steps :: "string list"
  allure_attachments :: "(string \<times> string \<times> attachment_type) list"
  fs :: "string \<Rightarrow> fsnode option"
  calls :: "event list"
  now :: datetime
  time_time :: nat

text \<open>
  What the outside does when called: the working directory and, for every call into a
  client library, whether it raises (and what) or what it returns. Only exceptions deriving
  from \<open>Exception\<close> are considered for the libraries.
\<close>

record env =
  os_getcwd :: string
  alt_connect :: "exc option"
  appium_connect :: "exc option"
  chrome_start :: "exc option"
  chrome_navigate :: "exc option"
  alt_stop :: "exc option"
  selenium_quit :: "exc option"
  appium_quit :: "exc option"
  alt_add_listener :: "exc option"
  alt_screenshot :: "exc + string"
  alt_find_object :: "By \<Rightarrow> string \<Rightarrow> exc + alt_object"
  alt_wait_for_object :: "By \<Rightarrow> string \<Rightarrow> string \<Rightarrow> string \<Rightarrow> exc + alt_object"
  alt_click :: "alt_object \<Rightarrow> exc option"

type_synonym 'a m = "world \<Rightarrow> (raised + 'a) \<times> world"

definition ret :: "'a \<Rightarrow> 'a m" where
  "ret a = (\<lambda>w. (Inr a, w))"

definition raise :: "raised \<Rightarrow> 'a m" where
  "raise e = (\<lambda>w. (Inl e, w))"

definition bind :: "'a m \<Rightarrow> ('a \<Rightarrow> 'b m) \<Rightarrow> 'b m" where
  "bind f g = (\<lambda>w. case f w of (Inl e, w') \<Rightarrow> (Inl e, w') | (Inr a, w') \<Rightarrow> g a w')"

fun seqs :: "unit m list \<Rightarrow> unit m" where
  "seqs [] = ret ()"
| "seqs (f # rest) = bind f (\<lambda>_. seqs rest)"

text \<open>\<open>try: f  except Exception as ex: h ex\<close>. A \<open>Failed\<close> passes through.\<close>

definition try_except :: "'a m \<Rightarrow> (exc \<Rightarrow> 'a m) \<Rightarrow> 'a m" where
  "try_except f h = (\<lambda>w. case f w of
       (Inl (Raise ex), w') \<Rightarrow> h ex w'
     | (Inl (Fail s), w') \<Rightarrow> (Inl (Fail s), w')
     | (Inl (Unmodelled s), w') \<Rightarrow> (Inl (Unmodelled s), w')
     | (Inr a, w') \<Rightarrow> (Inr a, w'))"

text \<open>
  \<open>try: f  finally: g\<close>. The \<open>finally\<close> block runs on every exit of \<open>f\<close>; what
  \<open>f\<close> raised is raised again after it, unless \<open>g\<close> itself raises.
\<close>

definition try_finally :: "'a m \<Rightarrow> unit m \<Rightarrow> 'a m" where
  "try_finally f g = (\<lambda>w. case f w of (r, w') \<Rightarrow>
       (case g w' of (Inl e, w'') \<Rightarrow> (Inl e, w'') | (Inr _, w'') \<Rightarrow> (r, w'')))"

text \<open>A call into a client library: record it, then raise what the outside says.\<close>

definition call_value :: "event \<Rightarrow> exc + 'a \<Rightarrow> 'a m" where
  "call_value ev outcome = (\<lambda>w.
     (case outcome of Inr a \<Rightarrow> Inr a | Inl ex \<Rightarrow> Inl (Raise ex),
      w\<lparr>calls := calls w @ [ev]\<rparr>))"

definition call :: "event \<Rightarrow> exc option \<Rightarrow> unit m" where
  "call ev outcome = (\<lambda>w.
     (case outcome of None \<Rightarrow> Inr () | Some ex \<Rightarrow> Inl (Raise ex),
      w\<lparr>calls := calls w @ [ev]\<rparr>))"

section \<open>Strings, paths and files\<close>

fun digits :: "nat \<Rightarrow> string" where
  "digits n = (if n < 10 then [char_of (48 + n)]
               else digits (n div 10) @ [char_of (48 + n mod 10)])"

declare digits.simps [simp del]

definition str_int :: "int \<Rightarrow> string" where
  "str_int i = (if i < 0 then CHR ''-'' # digits (nat (- i)) else digits (nat i))"

definition str_bool :: "bool \<Rightarrow> string" where
  "str_bool b = (if b then ''True'' else ''False'')"

definition zero_pad :: "nat \<Rightarrow> string \<Rightarrow> string" where
  "zero_pad k s = replicate (k - length s) CHR ''0'' @ s"

text \<open>\<open>strftime("%Y-%m-%d %H:%M:%S")\<close> and \<open>strftime("%Y%m%d_%H%M%S")\<close>.\<close>

definition strftime_log :: "datetime \<Rightarrow> string" where
  "strftime_log d =
     zero_pad 4 (digits (year d)) @ ''-'' @ zero_pad 2 (digits (month d)) @ ''-''
     @ zero_pad 2 (digits (day d)) @ '' '' @ zero_pad 2 (digits (hour d)) @ '':''
     @ zero_pad 2 (digits (minute d)) @ '':'' @ zero_pad 2 (digits (second d))"

definition strftime_run :: "datetime \<Rightarrow> string" where
  "strftime_run d =
     zero_pad 4 (digits (year d)) @ zero_pad 2 (digits (month d))
     @ zero_pad 2 (digits (day d)) @ ''_'' @ zero_pad 2 (digits (hour d))
     @ zero_pad 2 (digits (minute d)) @ zero_pad 2 (digits (second d))"

text \<open>\<open>a or b\<close> on an optional string: \<open>None\<close> and the empty string are falsy.\<close>

definition str_or :: "string option \<Rightarrow> string \<Rightarrow> string" where
  "str_or a b = (case a of None \<Rightarrow> b | Some s \<Rightarrow> if s = [] then b else s)"

definition char_lower :: "char \<Rightarrow> char" where
  "char_lower c = (let n = (of_char c :: nat) in
                   if 65 \<le> n \<and> n \<le> 90 then char_of (n + 32) else c)"

definition str_lower :: "string \<Rightarrow> string" where
  "str_lower s = map char_lower s"

text \<open>\<open>str.rfind\<close> for one character: the last index where it occurs, or \<open>-1\<close>.\<close>

fun rfind_from :: "char \<Rightarrow> string \<Rightarrow> nat \<Rightarrow> int \<Rightarrow> int" where
  "rfind_from c [] i found = found"
| "rfind_from c (x # xs) i found = rfind_from c xs (Suc i) (if x = c then int i else found)"

definition str_rfind :: "string \<Rightarrow> char \<Rightarrow> int" where
  "str_rfind p c = rfind_from c p 0 (- 1)"

text \<open>The paths are those of \<open>posixpath\<close>.\<close>

definition os_path_join :: "string \<Rightarrow> string \<Rightarrow> string" where
  "os_path_join a b =
     (if take 1 b = ''/'' then b
      else if a = [] then a @ b
      else if last a = CHR ''/'' then a @ b
      else a @ ''/'' @ b)"

text \<open>
  \<open>posixpath.dirname\<close>: everything up to the last slash, without the slashes at its
  end unless it consists of slashes only.
\<close>

definition rstrip_slash :: "string \<Rightarrow> string" where
  "rstrip_slash s = rev (dropWhile (\<lambda>c. c = CHR ''/'') (rev s))"

definition os_path_dirname :: "string \<Rightarrow> string" where
  "os_path_dirname p =
     (let i = str_rfind p CHR ''/'' + 1;
          head = take (nat i) p
      in if head \<noteq> [] \<and> \<not> list_all (\<lambda>c. c = CHR ''/'') head then rstrip_slash head
         else head)"

definition os_path_basename :: "string \<Rightarrow> string" where
  "os_path_basename p = drop (nat (str_rfind p CHR ''/'' + 1)) p"

text \<open>
  The loop of \<open>genericpath._splitext\<close> walks from the start of the file name to the last
  dot and splits at that dot as soon as it meets a character that is not a dot.
\<close>

fun has_non_dot :: "string \<Rightarrow> bool" where
  "has_non_dot [] = False"
| "has_non_dot (c # cs) = (if c \<noteq> CHR ''.'' then True else has_non_dot cs)"

definition os_path_splitext :: "string \<Rightarrow> string \<times> string" where
  "os_path_splitext p =
     (let sepIndex = str_rfind p CHR ''/'';
          dotIndex = str_rfind p CHR ''.''
      in if dotIndex > sepIndex
            \<and> has_non_dot (take (nat dotIndex - nat (sepIndex + 1)) (drop (nat (sepIndex + 1)) p))
         then (take (nat dotIndex) p, drop (nat dotIndex) p)
         else (p, []))"

definition os_path_exists :: "world \<Rightarrow> string \<Rightarrow> bool" where
  "os_path_exists w p = (fs w p \<noteq> None)"

text \<open>
  \<open>os.makedirs(p)\<close> and \<open>os.makedirs(p, exist_ok=True)\<close>. The directories above
  \<open>p\<close> are taken to be there; only \<open>p\<close> itself is recorded.
\<close>

definition os_makedirs :: "string \<Rightarrow> bool \<Rightarrow> unit m" where
  "os_makedirs p exist_ok = (\<lambda>w.
     case fs w p of
       None \<Rightarrow> (Inr (), w\<lparr>fs := (fs w)(p \<mapsto> Dir)\<rparr>)
     | Some Dir \<Rightarrow> (if exist_ok then (Inr (), w)
                    else (Inl (Raise (Exc FileExistsError p)), w))
     | Some (File c) \<Rightarrow> (Inl (Raise (Exc FileExistsError p)), w))"

text \<open>
  Opening a file for writing fails when the directory that holds it is missing
  (\<open>FileNotFoundError\<close>) or is a regular file (\<open>NotADirectoryError\<close>). A directory
  part that is empty or made of slashes only is the current directory or the root, which
  are always there.
\<close>

definition open_parent_error :: "world \<Rightarrow> string \<Rightarrow> exc option" where
  "open_parent_error w p =
     (let d = os_path_dirname p
      in if list_all (\<lambda>c. c = CHR ''/'') d then None
         else (case fs w d of
                 Some Dir \<Rightarrow> None
               | Some (File c) \<Rightarrow> Some (Exc NotADirectoryError p)
               | None \<Rightarrow> Some (Exc FileNotFoundError p)))"

text \<open>\<open>open(p, "a")\<close> followed by writing \<open>s\<close>; \<open>open(p, "rb").read()\<close>.\<close>

definition append_file :: "string \<Rightarrow> string \<Rightarrow> unit m" where
  "append_file p s = (\<lambda>w.
     case open_parent_error w p of
       Some ex \<Rightarrow> (Inl (Raise ex), w)
     | None \<Rightarrow>
         (case fs w p of
            None \<Rightarrow> (Inr (), w\<lparr>fs := (fs w)(p \<mapsto> File s)\<rparr>)
          | Some (File c) \<Rightarrow> (Inr (), w\<lparr>fs := (fs w)(p \<mapsto> File (c @ s))\<rparr>)
          | Some Dir \<Rightarrow> (Inl (Raise (Exc IsADirectoryError p)), w)))"

definition read_file :: "string \<Rightarrow> string m" where
  "read_file p = (\<lambda>w.
     case fs w p of
       None \<Rightarrow> (Inl (Raise (Exc FileNotFoundError p)), w)
     | Some (File c) \<Rightarrow> (Inr c, w)
     | Some Dir \<Rightarrow> (Inl (Raise (Exc IsADirectoryError p)), w))"

section \<open>The report sink\<close>

definition allure_step :: "string \<Rightarrow> unit m" where
  "allure_step s = (\<lambda>w. (Inr (), w\<lparr>allure_steps := allure_steps w @ [s]\<rparr>))"

definition allure_attach :: "string \<Rightarrow> string \<Rightarrow> attachment_type \<Rightarrow> unit m" where
  "allure_attach content nm ty =
     (\<lambda>w. (Inr (), w\<lparr>allure_attachments := allure_attachments w @ [(content, nm, ty)]\<rparr>))"

definition print :: "string \<Rightarrow> unit m" where
  "print s = (\<lambda>w. (Inr (), w\<lparr>stdout := stdout w @ [s]\<rparr>))"

section \<open>common/reporter.py\<close>

text \<open>
  \<open>Reporter.log\<close> and \<open>Reporter.take_screenshot\<close> call each other, but
  \<open>take_screenshot\<close> only ever calls \<open>log\<close> with \<open>with_screenshot=False\<close>, where
  \<open>log\<close> calls nothing back. \<open>Reporter_log_plain\<close> is \<open>Reporter.log\<close> at
  \<open>with_screenshot=False\<close>; \<open>Reporter_log\<close> is the function with both arguments.
\<close>

definition Reporter_log_plain :: "string \<Rightarrow> unit m" where
  "Reporter_log_plain message = (\<lambda>w.
     (let formatted_message = ''['' @ strftime_log (now w) @ ''] '' @ message
      in bind (print formatted_message) (\<lambda>_. allure_step formatted_message)) w)"

text \<open>
  \<open>AltDriver.get_png_screenshot(path)\<close>: the driver fetches the picture (or raises) and
  writes it to \<open>path\<close>.
\<close>

definition get_png_screenshot :: "env \<Rightarrow> string \<Rightarrow> unit m" where
  "get_png_screenshot e path =
     bind (call (AltDriver_get_png_screenshot path)
                (case alt_screenshot e of Inl ex \<Rightarrow> Some ex | Inr _ \<Rightarrow> None)) (\<lambda>_.
       (\<lambda>w. case open_parent_error w path of
               Some ex \<Rightarrow> (Inl (Raise ex), w)
             | None \<Rightarrow>
                 (case fs w path of
                    Some Dir \<Rightarrow> (Inl (Raise (Exc IsADirectoryError path)), w)
                  | _ \<Rightarrow> (Inr (), w\<lparr>fs := (fs w)(path \<mapsto>
                        File (case alt_screenshot e of Inl _ \<Rightarrow> [] | Inr png \<Rightarrow> png))\<rparr>))))"

definition take_screenshot :: "env \<Rightarrow> string option \<Rightarrow> unit m" where
  "take_screenshot e custom_name = (\<lambda>w.
     if Reporter_alt_driver w = None
     then Reporter_log_plain ''Cannot take screenshot: AltDriver not set'' w
     else try_except
       (\<lambda>w. (let project_directory = os_getcwd e;
                  screenshot_directory = os_path_join project_directory ''screenshots-and-logs''
              in bind (\<lambda>w. if \<not> os_path_exists w screenshot_directory
                            then os_makedirs screenshot_directory False w
                            else (Inr (), w)) (\<lambda>_.
                 (\<lambda>w. (let timestamp = time_time w;
                            filename = str_or custom_name (''screenshot_'' @ digits timestamp);
                            screenshot_path = os_path_join screenshot_directory (filename @ ''.png'')
                        in seqs [
                             get_png_screenshot e screenshot_path,
                             allure_step (''Screenshot taken: '' @ filename),
                             bind (read_file screenshot_path) (\<lambda>content.
                               allure_attach content filename PNG)]) w))) w)
       (\<lambda>ex. Reporter_log_plain (''Failed to take screenshot: '' @ str_exc ex)) w)"

definition Reporter_log :: "env \<Rightarrow> string \<Rightarrow> bool \<Rightarrow> unit m" where
  "Reporter_log e message with_screenshot =
     bind (Reporter_log_plain message) (\<lambda>_.
       if with_screenshot then take_screenshot e None else ret ())"

definition content_type_map :: "(string \<times> attachment_type) list" where
  "content_type_map =
     [(''.txt'', TEXT), (''.log'', TEXT), (''.json'', JSON), (''.xml'', XML),
      (''.html'', HTML), (''.csv'', CSV)]"

definition dict_get :: "('k \<times> 'v) list \<Rightarrow> 'k \<Rightarrow> 'v \<Rightarrow> 'v" where
  "dict_get d k dflt = (case map_of d k of None \<Rightarrow> dflt | Some v \<Rightarrow> v)"

definition attach_file_to_allure :: "string \<Rightarrow> string option \<Rightarrow> unit m" where
  "attach_file_to_allure file_path custom_name =
     (let filename = str_or custom_name (fst (os_path_splitext (os_path_basename file_path)))
      in bind (allure_step (''Attach file: '' @ filename)) (\<lambda>_.
           try_except
             (\<lambda>w. if \<not> os_path_exists w file_path
                   then Reporter_log_plain
                          (''Cannot attach file: File not found at '' @ file_path) w
                   else (let file_extension = str_lower (snd (os_path_splitext file_path));
                             attachment_type = dict_get content_type_map file_extension TEXT
                         in bind (read_file file_path) (\<lambda>content.
                            bind (allure_attach content filename attachment_type) (\<lambda>_.
                              Reporter_log_plain
                                (''File attached to Allure report: '' @ filename)))) w)
             (\<lambda>ex. Reporter_log_plain
                      (''Failed to attach file to Allure: '' @ str_exc ex))))"

section \<open>common/test_configuration.py\<close>

datatype PlatformType = ANDROID | IOS | WEBGL

fun PlatformType_value :: "PlatformType \<Rightarrow> string" where
  "PlatformType_value ANDROID = ''Android''"
| "PlatformType_value IOS = ''iOS''"
| "PlatformType_value WEBGL = ''WebGL''"

record TestConfiguration =
  ALT_TESTER_SERVER_URL :: string
  ALT_TESTER_SERVER_PORT :: int
  ALT_TESTER_APP_NAME :: string
  ALT_TESTER_CONNECT_TIMEOUT :: int
  PLATFORM :: PlatformType
  DEVICE_NAME :: string
  APP_BUNDLE_ID :: string
  RUNNING_WITH_APPIUM :: bool
  RUNNING_WITH_SELENIUM :: bool
  WEBGL_URL :: string

section \<open>tests/conftest.py: starting and stopping the drivers\<close>

definition start_alttester_driver :: "TestConfiguration \<Rightarrow> env \<Rightarrow> alt_driver m" where
  "start_alttester_driver cfg e =
     bind (allure_step ''Start AltTester Driver'') (\<lambda>_.
     bind (Reporter_log e (''Connecting to AltTester at '' @ ALT_TESTER_SERVER_URL cfg @ '':''
                           @ str_int (ALT_TESTER_SERVER_PORT cfg)) False) (\<lambda>_.
     bind (call (AltDriver_init (ALT_TESTER_SERVER_URL cfg) (ALT_TESTER_SERVER_PORT cfg)
                   (ALT_TESTER_APP_NAME cfg)) (alt_connect e)) (\<lambda>_.
     (let driver = AltDriver (ALT_TESTER_SERVER_URL cfg) (ALT_TESTER_SERVER_PORT cfg)
                     (ALT_TESTER_APP_NAME cfg)
      in bind (\<lambda>w. (Inr (), w\<lparr>Reporter_alt_driver := Some driver\<rparr>)) (\<lambda>_.
         bind (Reporter_log e ''Successfully connected to the game.'' False) (\<lambda>_.
         ret driver))))))"

definition appium_url :: string where
  "appium_url = ''http://127.0.0.1:4723/wd/hub''"

definition start_appium_driver :: "TestConfiguration \<Rightarrow> env \<Rightarrow> appium_driver option m" where
  "start_appium_driver cfg e =
     bind (allure_step ''Start Appium Driver'') (\<lambda>_.
     bind (Reporter_log e ''Setting up Appium driver...'' False) (\<lambda>_.
       if PLATFORM cfg = ANDROID then
         (let desired_caps =
                [(''platformName'', CapStr ''Android''),
                 (''automationName'', CapStr ''UiAutomator2''),
                 (''newCommandTimeout'', CapInt 2000),
                 (''autoGrantPermissions'', CapBool True),
                 (''deviceName'', CapStr (DEVICE_NAME cfg)),
                 (''appPackage'', CapStr (APP_BUNDLE_ID cfg))]
          in bind (call (AppiumRemote_init appium_url desired_caps) (appium_connect e)) (\<lambda>_.
             ret (Some (AppiumRemote appium_url desired_caps))))
       else if PLATFORM cfg = IOS then
         (let desired_caps =
                [(''platformName'', CapStr ''iOS''),
                 (''deviceName'', CapStr (DEVICE_NAME cfg)),
                 (''bundleId'', CapStr (APP_BUNDLE_ID cfg))]
          in bind (call (AppiumRemote_init appium_url desired_caps) (appium_connect e)) (\<lambda>_.
             ret (Some (AppiumRemote appium_url desired_caps))))
       else
         bind (Reporter_log e ''Appium not supported for current platform'' False) (\<lambda>_.
         ret None)))"

definition start_selenium_driver :: "TestConfiguration \<Rightarrow> env \<Rightarrow> selenium_driver option m" where
  "start_selenium_driver cfg e =
     bind (allure_step ''Start Selenium Driver'') (\<lambda>_.
       if PLATFORM cfg = WEBGL then
         bind (Reporter_log e ''Setting up Chrome driver for WebGL testing...'' False) (\<lambda>_.
         (let chrome_options = [''--no-sandbox'', ''--disable-dev-shm-usage'']
          in bind (call (Chrome_init chrome_options) (chrome_start e)) (\<lambda>_.
             bind (call (Chrome_get (WEBGL_URL cfg)) (chrome_navigate e)) (\<lambda>_.
             ret (Some (Chrome chrome_options))))))
       else
         bind (Reporter_log e ''Selenium not needed for current platform'' False) (\<lambda>_.
         ret None))"

definition start_all_drivers :: "TestConfiguration \<Rightarrow> env \<Rightarrow> DriverContainer m" where
  "start_all_drivers cfg e =
     bind (Reporter_log e ''Setting up test environment...'' False) (\<lambda>_.
     bind (Reporter_log e (''Platform: '' @ PlatformType_value (PLATFORM cfg)) False) (\<lambda>_.
     bind (Reporter_log e (''Running tests with Appium: ''
                           @ str_bool (RUNNING_WITH_APPIUM cfg)) False) (\<lambda>_.
     bind (Reporter_log e (''Running tests with Selenium: ''
                           @ str_bool (RUNNING_WITH_SELENIUM cfg)) False) (\<lambda>_.
     bind (if RUNNING_WITH_APPIUM cfg then start_appium_driver cfg e else ret None)
       (\<lambda>appium_driver.
     bind (if RUNNING_WITH_SELENIUM cfg then start_selenium_driver cfg e else ret None)
       (\<lambda>selenium_driver.
     bind (start_alttester_driver cfg e) (\<lambda>alt_driver.
     (let drivers = \<lparr>alt_driver = Some alt_driver, appium_driver = appium_driver,
                      selenium_driver = selenium_driver\<rparr>
      in bind (Reporter_log e ''All drivers started successfully'' False) (\<lambda>_.
         ret drivers)))))))))"

definition stop_all_drivers :: "env \<Rightarrow> DriverContainer \<Rightarrow> unit m" where
  "stop_all_drivers e drivers =
     try_except
       (seqs [
          (if alt_driver drivers \<noteq> None then call AltDriver_stop (alt_stop e) else ret ()),
          (if selenium_driver drivers \<noteq> None then call Chrome_quit (selenium_quit e)
           else ret ()),
          (if appium_driver drivers \<noteq> None then call AppiumRemote_quit (appium_quit e)
           else ret ()),
          Reporter_log e ''All drivers stopped successfully'' False])
       (\<lambda>ex. Reporter_log e (''Error stopping drivers: '' @ str_exc ex) False)"

section \<open>tests/conftest.py: the log listener\<close>

text \<open>
  What the fixtures read of pytest's \<open>request\<close>: the name of the test class (absent for a
  test outside a class), the name of the test, and whether its call phase failed (absent
  when no report of the call phase was stored on the node).
\<close>

record request =
  cls :: "string option"
  node_name :: string
  rep_call_failed :: "bool option"

record notification =
  message :: string
  stack_trace :: string

text \<open>
  The closure \<open>log_callback\<close> captures \<open>request\<close>, \<open>log_directory\<close> and
  \<open>timestamp\<close>; the dictionary \<open>unity_logs\<close> it shares with the fixture is passed in
  and returned. A dictionary is the list of its items in insertion order.
\<close>

record listener =
  lst_request :: request
  lst_log_directory :: string
  lst_timestamp :: string

definition newline :: string where
  "newline = [CHR 0x0A]"

definition setup_unity_log_listener ::
    "env \<Rightarrow> DriverContainer \<Rightarrow> request \<Rightarrow> listener option m" where
  "setup_unity_log_listener e drivers req = (\<lambda>w.
     if alt_driver drivers = None then (Inr None, w)
     else
       bind (Reporter_log e ''Setting up Unity log listener'' False) (\<lambda>_.
       (let project_directory = os_getcwd e;
            log_directory = os_path_join project_directory ''screenshots-and-logs''
        in bind (os_makedirs log_directory True) (\<lambda>_.
           (\<lambda>w. (let timestamp = strftime_run (now w)
                  in bind (call AltDriver_add_notification_listener (alt_add_listener e)) (\<lambda>_.
                     ret (Some \<lparr>lst_request = req, lst_log_directory = log_directory,
                                lst_timestamp = timestamp\<rparr>))) w)))) w)"

definition log_callback ::
    "env \<Rightarrow> listener \<Rightarrow> notification \<Rightarrow> (string \<times> string) list
       \<Rightarrow> (string \<times> string) list m" where
  "log_callback e l n unity_logs =
     try_except
       (let test_name = (case cls (lst_request l) of Some c \<Rightarrow> c | None \<Rightarrow> ''UnknownTest'');
            filename = test_name @ ''-UnityLogs-'' @ lst_timestamp l @ ''.txt'';
            filepath = os_path_join (lst_log_directory l) filename
        in bind (append_file filepath (message n @ newline)) (\<lambda>_.
           bind (append_file filepath (''StackTrace : '' @ stack_trace n @ newline)) (\<lambda>_.
           ret (if map_of unity_logs filename = None
                then unity_logs @ [(filename, filepath)] else unity_logs))))
       (\<lambda>ex. bind (Reporter_log e (''Error saving Unity log: '' @ str_exc ex) False) (\<lambda>_.
              ret unity_logs))"

definition dict_pop :: "('k \<times> 'v) list \<Rightarrow> 'k \<Rightarrow> ('k \<times> 'v) list" where
  "dict_pop d k = filter (\<lambda>kv. fst kv \<noteq> k) d"

text \<open>The loop of \<open>add_unity_logs_to_allure\<close> over the items of \<open>logs_copy\<close>.\<close>

fun add_unity_logs_loop ::
    "env \<Rightarrow> (string \<times> string) list \<Rightarrow> (string \<times> string) list
       \<Rightarrow> (string \<times> string) list m" where
  "add_unity_logs_loop e [] unity_logs = ret unity_logs"
| "add_unity_logs_loop e ((filename, filepath) # items) unity_logs =
     bind (try_except (attach_file_to_allure filepath (Some filename))
                      (\<lambda>ex. Reporter_log e ''No Unity logs found.'' False)) (\<lambda>_.
     add_unity_logs_loop e items (dict_pop unity_logs filename))"

definition add_unity_logs_to_allure ::
    "env \<Rightarrow> (string \<times> string) list \<Rightarrow> (string \<times> string) list m" where
  "add_unity_logs_to_allure e unity_logs =
     (let logs_copy = unity_logs in add_unity_logs_loop e logs_copy unity_logs)"

text \<open>The notifications that arrive while the tests of the class run, in arrival order.\<close>

fun deliver ::
    "env \<Rightarrow> listener option \<Rightarrow> notification list \<Rightarrow> (string \<times> string) list
       \<Rightarrow> (string \<times> string) list m" where
  "deliver e None ns unity_logs = ret unity_logs"
| "deliver e (Some l) [] unity_logs = ret unity_logs"
| "deliver e (Some l) (n # ns) unity_logs =
     bind (log_callback e l n unity_logs) (\<lambda>unity_logs'. deliver e (Some l) ns unity_logs')"

section \<open>tests/conftest.py: the fixtures\<close>

text \<open>
  \<open>setup_drivers\<close> is a generator: pytest runs it up to its \<open>yield\<close> before the
  tests of the class and resumes it once after them. \<open>setup_drivers_body\<close> is the
  \<open>try\<close> block up to the \<open>yield\<close>; when it raises, the result carries the value the
  local variable \<open>drivers\<close> has at that moment, which the \<open>finally\<close> block reads.
\<close>

definition quote :: string where
  "quote = [CHR 0x27]"

definition setup_drivers_body ::
    "TestConfiguration \<Rightarrow> env \<Rightarrow> request \<Rightarrow> world
       \<Rightarrow> (raised \<times> DriverContainer option + DriverContainer \<times> listener option) \<times> world" where
  "setup_drivers_body cfg e req w =
     (case allure_step ''Initialize Test Configuration and Start All Drivers'' w of (_, w0) \<Rightarrow>
      (case start_all_drivers cfg e w0 of
         (Inl x, w1) \<Rightarrow> (Inl (x, None), w1)
       | (Inr drivers, w1) \<Rightarrow>
           (case setup_unity_log_listener e drivers req w1 of
              (Inl x, w2) \<Rightarrow> (Inl (x, Some drivers), w2)
            | (Inr l, w2) \<Rightarrow>
                (case cls req of
                   None \<Rightarrow>
                     (Inl (Raise (Exc AttributeError
                             (quote @ ''NoneType'' @ quote @ '' object has no attribute ''
                              @ quote @ ''drivers'' @ quote)), Some drivers), w2)
                 | Some c \<Rightarrow> (Inr (drivers, l), w2\<lparr>cls_drivers := Some drivers\<rparr>)))))"

text \<open>The \<open>finally\<close> block.\<close>

definition setup_drivers_finally ::
    "env \<Rightarrow> (string \<times> string) list \<Rightarrow> DriverContainer option \<Rightarrow> unit m" where
  "setup_drivers_finally e unity_logs drivers =
     bind (add_unity_logs_to_allure e unity_logs) (\<lambda>_.
     bind (case drivers of None \<Rightarrow> ret () | Some d \<Rightarrow> stop_all_drivers e d) (\<lambda>_.
     Reporter_log e ''All drivers stopped and cleanup completed.'' False))"

text \<open>
  The first run of the generator: it either reaches the \<open>yield\<close>, or the body raises,
  the \<open>except\<close> clause turns an \<open>Exception\<close> into \<open>pytest.fail\<close> (the
  assignment after it is never reached), and the \<open>finally\<close> block runs with an empty
  \<open>unity_logs\<close>.
\<close>

definition setup_drivers_setup ::
    "TestConfiguration \<Rightarrow> env \<Rightarrow> request \<Rightarrow> (DriverContainer \<times> listener option) m" where
  "setup_drivers_setup cfg e req = (\<lambda>w.
     case setup_drivers_body cfg e req w of
       (Inr y, w') \<Rightarrow> (Inr y, w')
     | (Inl (Raise ex, drivers), w') \<Rightarrow>
         try_finally (raise (Fail (''Exception during driver setup: '' @ str_exc ex)))
                     (setup_drivers_finally e [] drivers) w'
     | (Inl (x, drivers), w') \<Rightarrow>
         try_finally (raise x) (setup_drivers_finally e [] drivers) w')"

text \<open>The second run: the \<open>try\<close> block ends after the \<open>yield\<close> and \<open>finally\<close> runs.\<close>

definition setup_drivers_teardown ::
    "env \<Rightarrow> DriverContainer \<Rightarrow> (string \<times> string) list \<Rightarrow> unit m" where
  "setup_drivers_teardown e drivers unity_logs =
     try_finally (ret ()) (setup_drivers_finally e unity_logs (Some drivers))"

text \<open>
  One test class: the fixture is set up; if it yields, the tests run, during which the
  notifications \<open>ns\<close> arrive, and the fixture is resumed.
\<close>

definition run_class ::
    "TestConfiguration \<Rightarrow> env \<Rightarrow> request \<Rightarrow> notification list \<Rightarrow> unit m" where
  "run_class cfg e req ns =
     bind (setup_drivers_setup cfg e req) (\<lambda>y.
     bind (deliver e (snd y) ns []) (\<lambda>unity_logs.
     setup_drivers_teardown e (fst y) unity_logs))"

text \<open>\<open>auto_screenshot_on_failure\<close>, the part after its \<open>yield\<close>.\<close>

definition auto_screenshot_on_failure :: "env \<Rightarrow> request \<Rightarrow> unit m" where
  "auto_screenshot_on_failure e req =
     (case rep_call_failed req of
        None \<Rightarrow> raise (Raise (Exc AttributeError
                  (quote @ ''Function'' @ quote @ '' object has no attribute ''
                   @ quote @ ''rep_call'' @ quote)))
      | Some failed \<Rightarrow>
          if failed then (let test_name = node_name req
                          in take_screenshot e (Some (test_name @ ''_Failed'')))
          else ret ())"

section \<open>views\<close>

datatype view_class = BaseView | MainMenuView | GameplayView

fun class_name :: "view_class \<Rightarrow> string" where
  "class_name BaseView = ''BaseView''"
| "class_name MainMenuView = ''MainMenuView''"
| "class_name GameplayView = ''GameplayView''"

text \<open>
  The names bound in each class body, the names each \<open>__init__\<close> sets on the instance,
  and the order in which Python searches the classes. No class defines
  \<open>__getattr__\<close>, and \<open>object\<close> binds none of the names looked up below.
\<close>

fun class_dict :: "view_class \<Rightarrow> string list" where
  "class_dict BaseView =
     [''__init__'', ''alt_driver'', ''appium_driver'', ''selenium_driver'', ''click_object'',
      ''tap_object'', ''wait_for_object'', ''wait_for_object_which_contains'',
      ''wait_for_object_not_be_present'', ''set_text'', ''get_text'', ''is_object_present'',
      ''find_element'', ''get_current_scene'', ''load_scene'', ''take_screenshot'', ''wait'']"
| "class_dict MainMenuView =
     [''__init__'', ''click_play_button'', ''is_main_menu_visible'', ''enter_player_name'',
      ''navigate_to_settings'', ''wait_for_main_menu_ready'', ''start_new_game'']"
| "class_dict GameplayView =
     [''__init__'', ''pause_game'', ''resume_game'', ''is_game_paused'',
      ''is_main_character_present'', ''get_main_character_position'',
      ''wait_for_gameplay_ready'', ''is_gameplay_hud_visible'']"

fun instance_dict :: "view_class \<Rightarrow> string list" where
  "instance_dict BaseView = [''drivers'']"
| "instance_dict MainMenuView =
     [''drivers'', ''play_button_locator'', ''main_menu_panel_locator'',
      ''player_name_input_locator'', ''settings_button_locator'']"
| "instance_dict GameplayView =
     [''drivers'', ''pause_button_locator'', ''resume_button_locator'',
      ''main_character_locator'', ''game_hud_locator'']"

fun mro :: "view_class \<Rightarrow> view_class list" where
  "mro BaseView = [BaseView]"
| "mro MainMenuView = [MainMenuView, BaseView]"
| "mro GameplayView = [GameplayView, BaseView]"

definition resolve :: "view_class \<Rightarrow> string \<Rightarrow> view_class option" where
  "resolve c nm = find (\<lambda>k. nm \<in> set (class_dict k)) (mro c)"

record view =
  view_class :: view_class
  drivers :: DriverContainer

text \<open>
  \<open>self.find_object(locator)\<close>, as the two view classes write it. The attribute is
  looked up on the instance and then along the classes; when the name is bound nowhere,
  Python raises \<open>AttributeError\<close> at the access. The repository holds no definition that
  such a call could reach.
\<close>

definition self_find_object :: "env \<Rightarrow> view \<Rightarrow> By \<times> string \<Rightarrow> alt_object m" where
  "self_find_object e self locator =
     (if ''find_object'' \<in> set (instance_dict (view_class self))
         \<or> resolve (view_class self) ''find_object'' \<noteq> None
      then raise (Unmodelled ''find_object'')
      else raise (Raise (Exc AttributeError
             (quote @ class_name (view_class self) @ quote @ '' object has no attribute ''
              @ quote @ ''find_object'' @ quote))))"

text \<open>
  \<open>self.alt_driver.find_object(by, value)\<close> and
  \<open>self.alt_driver.wait_for_object(by, value, timeout=, interval=)\<close>: the property
  reads \<open>self.drivers.alt_driver\<close>; on \<open>None\<close> the method access raises. A float
  argument is carried as its \<open>str()\<close> form, which is all the harness itself uses of it.
\<close>

definition AltDriver_find :: "env \<Rightarrow> view \<Rightarrow> By \<Rightarrow> string \<Rightarrow> alt_object m" where
  "AltDriver_find e self b v =
     (case alt_driver (drivers self) of
        None \<Rightarrow> raise (Raise (Exc AttributeError
                  (quote @ ''NoneType'' @ quote @ '' object has no attribute ''
                   @ quote @ ''find_object'' @ quote)))
      | Some d \<Rightarrow> call_value (AltDriver_find_object b v) (alt_find_object e b v))"

definition AltDriver_wait ::
    "env \<Rightarrow> view \<Rightarrow> By \<Rightarrow> string \<Rightarrow> string \<Rightarrow> string \<Rightarrow> alt_object m" where
  "AltDriver_wait e self b v timeout interval =
     (case alt_driver (drivers self) of
        None \<Rightarrow> raise (Raise (Exc AttributeError
                  (quote @ ''NoneType'' @ quote @ '' object has no attribute ''
                   @ quote @ ''wait_for_object'' @ quote)))
      | Some d \<Rightarrow> call_value (AltDriver_wait_for_object b v timeout interval)
                    (alt_wait_for_object e b v timeout interval))"

subsection \<open>views/base_view.py\<close>

definition wait_for_object ::
    "env \<Rightarrow> view \<Rightarrow> By \<times> string \<Rightarrow> string \<Rightarrow> string \<Rightarrow> alt_object m" where
  "wait_for_object e self locator timeout interval =
     bind (allure_step ''Wait for object'') (\<lambda>_.
     bind (Reporter_log e (''Waiting for element '' @ snd locator @ '' to be present.'')
             False) (\<lambda>_.
     try_except
       (AltDriver_wait e self (fst locator) (snd locator) timeout interval)
       (\<lambda>ex. bind (Reporter_log e (''Element '' @ snd locator @ '' was not found within ''
                                    @ timeout @ '' seconds'') True) (\<lambda>_.
              raise (Raise (Exc AssertionError
                (''Element '' @ quote @ snd locator @ quote @ '' was not found within ''
                 @ timeout @ '' seconds. ''
                 @ ''Please check if the element exists or if the game loaded correctly.'')))))))"

definition is_object_present :: "env \<Rightarrow> view \<Rightarrow> By \<times> string \<Rightarrow> bool m" where
  "is_object_present e self locator =
     bind (allure_step ''Check if object is present'') (\<lambda>_.
     try_except
       (bind (AltDriver_find e self (fst locator) (snd locator)) (\<lambda>_. ret True))
       (\<lambda>ex. ret False))"

definition find_element :: "env \<Rightarrow> view \<Rightarrow> By \<times> string \<Rightarrow> alt_object m" where
  "find_element e self locator =
     bind (allure_step ''Find element by locator'') (\<lambda>_.
     try_except
       (AltDriver_find e self (fst locator) (snd locator))
       (\<lambda>ex. bind (Reporter_log e (''Element '' @ snd locator @ '' not found'') True) (\<lambda>_.
              raise (Raise (Exc AssertionError
                (''Element '' @ quote @ snd locator @ quote @ '' was not found. ''
                 @ ''Please verify the element exists in the current scene.''))))))"

subsection \<open>views/main_menu_view.py\<close>

definition play_button_locator :: "By \<times> string" where
  "play_button_locator = (NAME, ''PlayButton'')"

definition main_menu_panel_locator :: "By \<times> string" where
  "main_menu_panel_locator = (NAME, ''MainMenuPanel'')"

definition click_play_button :: "env \<Rightarrow> view \<Rightarrow> unit m" where
  "click_play_button e self =
     bind (allure_step ''Click play button'') (\<lambda>_.
     bind (self_find_object e self play_button_locator) (\<lambda>play_button.
     bind (call (AltObject_click (obj_name play_button)) (alt_click e play_button)) (\<lambda>_.
     Reporter_log e ''Clicked play button'' False)))"

definition is_main_menu_visible :: "env \<Rightarrow> view \<Rightarrow> bool m" where
  "is_main_menu_visible e self =
     bind (allure_step ''Check if main menu is visible'') (\<lambda>_.
     try_except
       (bind (self_find_object e self main_menu_panel_locator) (\<lambda>main_menu_panel.
        (let is_visible = enabled main_menu_panel
         in bind (Reporter_log e (''Main menu panel visible: '' @ str_bool is_visible)
                    False) (\<lambda>_.
            ret is_visible))))
       (\<lambda>ex. bind (Reporter_log e ''Main menu panel not found'' False) (\<lambda>_. ret False)))"

subsection \<open>views/gameplay_view.py\<close>

definition resume_button_locator :: "By \<times> string" where
  "resume_button_locator = (NAME, ''ResumeButton'')"

definition is_game_paused :: "env \<Rightarrow> view \<Rightarrow> bool m" where
  "is_game_paused e self =
     bind (allure_step ''Check if game is paused'') (\<lambda>_.
     try_except
       (bind (self_find_object e self resume_button_locator) (\<lambda>resume_button.
        (let is_visible = enabled resume_button
         in bind (Reporter_log e (''Game paused: '' @ str_bool is_visible) False) (\<lambda>_.
            ret is_visible))))
       (\<lambda>ex. bind (Reporter_log e ''Resume button not found - game is not paused'' False)
                (\<lambda>_. ret False)))"

section \<open>Observations on a run\<close>

text \<open>The calls that stop or quit a driver.\<close>

fun is_stop :: "event \<Rightarrow> bool" where
  "is_stop AltDriver_stop = True"
| "is_stop Chrome_quit = True"
| "is_stop AppiumRemote_quit = True"
| "is_stop _ = False"

text \<open>
  The line that the last statement of the \<open>finally\<close> block of \<open>setup_drivers\<close>
  prints, at a given time.
\<close>

definition teardown_line :: "datetime \<Rightarrow> string" where
  "teardown_line d = ''['' @ strftime_log d @ ''] All drivers stopped and cleanup completed.''"

text \<open>
  A step from \<open>w\<close> to \<open>w'\<close> is steady when it leaves the clock alone, only adds
  calls and printed lines, and adds neither a stop call nor the line of the teardown.
  \<open>moved\<close> is the same with the stop calls and the number of teardown lines added.
\<close>

definition steady :: "world \<Rightarrow> world \<Rightarrow> bool" where
  "steady w w' = (now w' = now w
     \<and> prefix (calls w) (calls w') \<and> filter is_stop (calls w') = filter is_stop (calls w)
     \<and> prefix (stdout w) (stdout w')
     \<and> count_list (stdout w') (teardown_line (now w)) = count_list (stdout w) (teardown_line (now w)))"

definition moved :: "world \<Rightarrow> world \<Rightarrow> event list \<Rightarrow> nat \<Rightarrow> bool" where
  "moved w w' stops k = (now w' = now w
     \<and> prefix (calls w) (calls w')
     \<and> filter is_stop (calls w') = filter is_stop (calls w) @ stops
     \<and> prefix (stdout w) (stdout w')
     \<and> count_list (stdout w') (teardown_line (now w))
         = count_list (stdout w) (teardown_line (now w)) + k)"

text \<open>
  The calls \<open>stop_all_drivers\<close> makes: each driver that is present, in the order primary,
  browser, mobile, up to and including the first whose stop raises.
\<close>

definition stop_calls :: "env \<Rightarrow> DriverContainer \<Rightarrow> event list" where
  "stop_calls e d =
     (if alt_driver d \<noteq> None then [AltDriver_stop] else [])
     @ (if selenium_driver d \<noteq> None \<and> (alt_driver d = None \<or> alt_stop e = None)
        then [Chrome_quit] else [])
     @ (if appium_driver d \<noteq> None \<and> (alt_driver d = None \<or> alt_stop e = None)
           \<and> (selenium_driver d = None \<or> selenium_quit e = None)
        then [AppiumRemote_quit] else [])"

text \<open>
  The value of the local variable \<open>drivers\<close> of \<open>setup_drivers\<close> when its
  \<open>finally\<close> block runs: the container, when \<open>start_all_drivers\<close> returned one.
\<close>

definition started :: "TestConfiguration \<Rightarrow> env \<Rightarrow> world \<Rightarrow> DriverContainer option" where
  "started cfg e w =
     (case fst (start_all_drivers cfg e
                  (snd (allure_step ''Initialize Test Configuration and Start All Drivers'' w))) of
        Inl _ \<Rightarrow> None | Inr d \<Rightarrow> Some d)"

text \<open>
  \<open>ok\<close>: the result is a value. \<open>mild\<close>: the result is a value or an exception that
  \<open>except Exception\<close> catches.
\<close>

definition ok :: "raised + 'a \<Rightarrow> bool" where
  "ok r = (case r of Inr _ \<Rightarrow> True | Inl _ \<Rightarrow> False)"

definition mild :: "raised + 'a \<Rightarrow> bool" where
  "mild r = (case r of Inl (Fail _) \<Rightarrow> False | Inl (Unmodelled _) \<Rightarrow> False | _ \<Rightarrow> True)"

text \<open>The content of a file, empty when the path holds none.\<close>

definition file_text :: "fsnode option \<Rightarrow> string" where
  "file_text node = (case node of Some (File c) \<Rightarrow> c | _ \<Rightarrow> [])"

section \<open>Concrete inputs\<close>

text \<open>
  A clock, a world in which nothing has happened yet (one directory with one file exists),
  an outside in which
  every call succeeds except that the scene holds no object, and a container, a view and a
  request as the fixtures build them.
\<close>

definition clock0 :: datetime where
  "clock0 = \<lparr>year = 2024, month = 3, day = 9, hour = 14, minute = 5, second = 0\<rparr>"

definition world0 :: world where
  "world0 = \<lparr>Reporter_alt_driver = None, cls_drivers = None, stdout = [], allure_steps = [],
     allure_attachments = [],
     fs = Map.empty(''out'' \<mapsto> Dir, ''out/results.JSON'' \<mapsto> File ''{}''),
     calls = [], now = clock0, time_time = 1710000000\<rparr>"

definition env0 :: env where
  "env0 = \<lparr>os_getcwd = ''/home/ci/project'', alt_connect = None, appium_connect = None,
     chrome_start = None, chrome_navigate = None, alt_stop = None, selenium_quit = None,
     appium_quit = None, alt_add_listener = None, alt_screenshot = Inr ''PNG'',
     alt_find_object = (\<lambda>b v. Inl (Exc LibraryError ''Object not found'')),
     alt_wait_for_object = (\<lambda>b v t i. Inl (Exc LibraryError ''Object not found'')),
     alt_click = (\<lambda>obj. None)\<rparr>"

definition drivers0 :: DriverContainer where
  "drivers0 = \<lparr>alt_driver = Some (AltDriver ''127.0.0.1'' 13000 ''__default__''),
     appium_driver = Some (AppiumRemote appium_url []),
     selenium_driver = Some (Chrome [])\<rparr>"

definition view0 :: view where
  "view0 = \<lparr>view_class = MainMenuView, drivers = drivers0\<rparr>"

text \<open>
  A request for a test of the class \<open>TestMainMenu\<close>, the listener the fixture registers
  for it at \<open>clock0\<close>, two notifications, the configuration of the defaults and two
  variants of it, an outside where the primary driver fails to stop and one where the game
  is not reachable, the world right after the listener was registered, and the name and
  path of the log file of that run.
\<close>

definition request0 :: request where
  "request0 = \<lparr>cls = Some ''TestMainMenu'', node_name = ''test_can_start_new_game'',
     rep_call_failed = Some True\<rparr>"

definition listener0 :: listener where
  "listener0 = \<lparr>lst_request = request0,
     lst_log_directory = ''/home/ci/project/screenshots-and-logs'',
     lst_timestamp = ''20240309_140500''\<rparr>"

definition note1 :: notification where
  "note1 = \<lparr>message = ''Level loaded'', stack_trace = ''GameManager.Start ()''\<rparr>"

definition note2 :: notification where
  "note2 = \<lparr>message = ''Score 10'', stack_trace = ''Score.Add ()''\<rparr>"

definition world1 :: world where
  "world1 = snd (setup_unity_log_listener env0 drivers0 request0 world0)"

definition cfg0 :: TestConfiguration where
  "cfg0 = \<lparr>ALT_TESTER_SERVER_URL = ''127.0.0.1'', ALT_TESTER_SERVER_PORT = 13000,
     ALT_TESTER_APP_NAME = ''__default__'', ALT_TESTER_CONNECT_TIMEOUT = 60,
     PLATFORM = ANDROID, DEVICE_NAME = ''android'', APP_BUNDLE_ID = ''com.example.app'',
     RUNNING_WITH_APPIUM = False, RUNNING_WITH_SELENIUM = False,
     WEBGL_URL = ''https://example.com/game''\<rparr>"

definition cfg_webgl :: TestConfiguration where
  "cfg_webgl = cfg0\<lparr>PLATFORM := WEBGL, RUNNING_WITH_SELENIUM := True\<rparr>"

definition cfg_appium :: TestConfiguration where
  "cfg_appium = cfg0\<lparr>RUNNING_WITH_APPIUM := True\<rparr>"

definition env_stop_fails :: env where
  "env_stop_fails = env0\<lparr>alt_stop := Some (Exc LibraryError ''Connection closed'')\<rparr>"

definition env_no_game :: env where
  "env_no_game = env0\<lparr>alt_connect := Some (Exc LibraryError ''Connection refused'')\<rparr>"

definition log_name0 :: string where
  "log_name0 = ''TestMainMenu-UnityLogs-20240309_140500.txt''"

definition log_path0 :: string where
  "log_path0 =
     ''/home/ci/project/screenshots-and-logs/TestMainMenu-UnityLogs-20240309_140500.txt''"

section \<open>Basic facts\<close>

lemma Reporter_log_plain_eq:
  "Reporter_log_plain msg w =
     (Inr (), w\<lparr>stdout := stdout w @ [''['' @ strftime_log (now w) @ ''] '' @ msg],
               allure_steps := allure_steps w @ [''['' @ strftime_log (now w) @ ''] '' @ msg]\<rparr>)"
  by (simp add: Reporter_log_plain_def bind_def print_def allure_step_def Let_def)

lemma Reporter_log_False [simp]: "Reporter_log e msg False = Reporter_log_plain msg"
  by (simp add: Reporter_log_def bind_def ret_def fun_eq_iff split: prod.splits sum.splits)

lemma call_eq:
  "call ev outcome w =
     ((case outcome of None \<Rightarrow> Inr () | Some ex \<Rightarrow> Inl (Raise ex)), w\<lparr>calls := calls w @ [ev]\<rparr>)"
  by (simp add: call_def)

lemma clock0_log: "strftime_log clock0 = ''2024-03-09 14:05:00''"
  by code_simp

lemma clock0_run: "strftime_run clock0 = ''20240309_140500''"
  by code_simp

lemma results_path:
  "os_path_splitext ''out/results.JSON'' = (''out/results'', ''.JSON'')"
  "os_path_splitext (os_path_basename ''out/results.JSON'') = (''results'', ''.JSON'')"
  "str_lower ''.JSON'' = ''.json''"
  by code_simp+

text \<open>
  No class of the views binds \<open>find_object\<close>: the base class names its lookup
  \<open>find_element\<close>. Every \<open>self.find_object(...)\<close> therefore raises at the access.
\<close>

lemma find_object_is_not_defined:
  "''find_object'' \<notin> set (instance_dict c) \<and> resolve c ''find_object'' = None"
  by (cases c) (simp_all add: resolve_def)

lemma self_find_object_eq:
  "self_find_object e self locator w =
     (Inl (Raise (Exc AttributeError
        (quote @ class_name (view_class self) @ quote @ '' object has no attribute ''
         @ quote @ ''find_object'' @ quote))), w)"
  using find_object_is_not_defined [of "view_class self"]
  by (simp add: self_find_object_def raise_def)

text \<open>
  As a consequence the two visibility checks of the views answer \<open>False\<close> whatever the
  scene holds.
\<close>

lemma visibility_checks_always_False:
  "fst (is_main_menu_visible e self w) = Inr False \<and> fst (is_game_paused e self w) = Inr False"
  by (simp add: is_main_menu_visible_def is_game_paused_def bind_def allure_step_def
        try_except_def self_find_object_eq Reporter_log_plain_eq ret_def)

section \<open>Effects of the harness functions\<close>

lemma bind_Inr_E:
  assumes "bind f g w = (Inr b, w')"
  obtains a w1 where "f w = (Inr a, w1)" and "g a w1 = (Inr b, w')"
  using assms by (auto simp add: bind_def split: prod.splits sum.splits)

lemma bind_log_plain:
  "bind (Reporter_log_plain msg) g w = g () (snd (Reporter_log_plain msg w))"
  by (simp add: bind_def Reporter_log_plain_eq)

lemma calls_log_plain [simp]: "calls (snd (Reporter_log_plain msg w)) = calls w"
  by (simp add: Reporter_log_plain_eq)

lemma start_appium_driver_calls:
  "prefix (calls w) (calls (snd (start_appium_driver cfg e w)))"
  by (cases "appium_connect e")
     (simp_all add: start_appium_driver_def bind_def allure_step_def Reporter_log_plain_eq
        call_eq ret_def Let_def)

lemma start_alttester_driver_calls:
  "prefix (calls w) (calls (snd (start_alttester_driver cfg e w)))"
  by (cases "alt_connect e")
     (simp_all add: start_alttester_driver_def bind_def allure_step_def Reporter_log_plain_eq
        call_eq ret_def Let_def)

lemma start_selenium_driver_Inr:
  assumes "start_selenium_driver cfg e w = (Inr r, w')"
  shows "(r \<noteq> None \<longleftrightarrow> PLATFORM cfg = WEBGL) \<and>
         (r \<noteq> None \<longrightarrow> calls w' = calls w @
            [Chrome_init [''--no-sandbox'', ''--disable-dev-shm-usage''],
             Chrome_get (WEBGL_URL cfg)])"
  using assms
  by (cases "chrome_start e"; cases "chrome_navigate e"; cases "PLATFORM cfg = WEBGL")
     (auto simp add: start_selenium_driver_def bind_def allure_step_def Reporter_log_plain_eq
        call_eq ret_def Let_def)

lemma start_all_drivers_selenium:
  assumes "start_all_drivers cfg e w = (Inr d, w')"
  shows "(selenium_driver d \<noteq> None \<longleftrightarrow> RUNNING_WITH_SELENIUM cfg \<and> PLATFORM cfg = WEBGL) \<and>
         (selenium_driver d \<noteq> None \<longrightarrow>
            (\<exists>pre post. drop (length (calls w)) (calls w') =
               pre @ [Chrome_init [''--no-sandbox'', ''--disable-dev-shm-usage''],
                      Chrome_get (WEBGL_URL cfg)] @ post))"
proof -
  let ?w0 = "snd (Reporter_log_plain (''Running tests with Selenium: '' @ str_bool (RUNNING_WITH_SELENIUM cfg))
               (snd (Reporter_log_plain (''Running tests with Appium: '' @ str_bool (RUNNING_WITH_APPIUM cfg))
               (snd (Reporter_log_plain (''Platform: '' @ PlatformType_value (PLATFORM cfg))
               (snd (Reporter_log_plain ''Setting up test environment...'' w)))))))"
  have c0: "calls ?w0 = calls w" by simp
  from assms obtain app w1 where
      a: "(if RUNNING_WITH_APPIUM cfg then start_appium_driver cfg e else ret None) ?w0 = (Inr app, w1)"
    and r1: "bind (if RUNNING_WITH_SELENIUM cfg then start_selenium_driver cfg e else ret None)
       (\<lambda>selenium_driver.
     bind (start_alttester_driver cfg e) (\<lambda>alt_driver.
     (let drivers = \<lparr>alt_driver = Some alt_driver, appium_driver = app,
                      selenium_driver = selenium_driver\<rparr>
      in bind (Reporter_log e ''All drivers started successfully'' False) (\<lambda>_.
         ret drivers)))) w1 = (Inr d, w')"
    unfolding start_all_drivers_def Reporter_log_False bind_log_plain
    by (erule bind_Inr_E)
  from r1 obtain sel w2 where
      s: "(if RUNNING_WITH_SELENIUM cfg then start_selenium_driver cfg e else ret None) w1 = (Inr sel, w2)"
    and r2: "bind (start_alttester_driver cfg e) (\<lambda>alt_driver.
     (let drivers = \<lparr>alt_driver = Some alt_driver, appium_driver = app,
                      selenium_driver = sel\<rparr>
      in bind (Reporter_log e ''All drivers started successfully'' False) (\<lambda>_.
         ret drivers))) w2 = (Inr d, w')"
    by (erule bind_Inr_E)
  from r2 obtain alt w3 where
      t: "start_alttester_driver cfg e w2 = (Inr alt, w3)"
    and r3: "(let drivers = \<lparr>alt_driver = Some alt, appium_driver = app,
                      selenium_driver = sel\<rparr>
      in bind (Reporter_log e ''All drivers started successfully'' False) (\<lambda>_.
         ret drivers)) w3 = (Inr d, w')"
    by (erule bind_Inr_E)
  from r3 have d: "selenium_driver d = sel" and c3: "calls w' = calls w3"
    by (auto simp add: Let_def bind_def Reporter_log_plain_eq ret_def)
  have p1: "prefix (calls w) (calls w1)"
    using a start_appium_driver_calls [of ?w0 cfg e] c0
    by (auto simp add: ret_def split: if_splits)
  have p3: "prefix (calls w2) (calls w')"
    using t start_alttester_driver_calls [of w2 cfg e] c3 by simp
  have iff: "sel \<noteq> None \<longleftrightarrow> RUNNING_WITH_SELENIUM cfg \<and> PLATFORM cfg = WEBGL"
    using s start_selenium_driver_Inr [of cfg e w1 sel w2]
    by (auto simp add: ret_def split: if_splits)
  have nav: "\<exists>pre post. drop (length (calls w)) (calls w') =
               pre @ [Chrome_init [''--no-sandbox'', ''--disable-dev-shm-usage''],
                      Chrome_get (WEBGL_URL cfg)] @ post" if "sel \<noteq> None"
  proof -
    from that s have "calls w2 = calls w1 @
            [Chrome_init [''--no-sandbox'', ''--disable-dev-shm-usage''],
             Chrome_get (WEBGL_URL cfg)]"
      using start_selenium_driver_Inr [of cfg e w1 sel w2]
      by (auto simp add: ret_def split: if_splits)
    moreover from p1 obtain pre where "calls w1 = calls w @ pre" by (auto simp add: prefix_def)
    moreover from p3 obtain post where "calls w' = calls w2 @ post" by (auto simp add: prefix_def)
    ultimately have "drop (length (calls w)) (calls w') =
        pre @ [Chrome_init [''--no-sandbox'', ''--disable-dev-shm-usage''],
               Chrome_get (WEBGL_URL cfg)] @ post" by simp
    then show ?thesis by blast
  qed
  show ?thesis using d iff nav by blast
qed

lemma steady_refl [simp]: "steady w w"
  by (simp add: steady_def)

lemma steady_trans: "steady w w1 \<Longrightarrow> steady w1 w2 \<Longrightarrow> steady w w2"
  by (auto simp add: steady_def)

lemma count_list_snoc: "count_list (xs @ [x]) y = count_list xs y + (if x = y then 1 else 0)"
  by (induction xs) auto

lemma steady_ret: "steady w (snd (ret a w))"
  by (simp add: ret_def)

lemma steady_raise: "steady w (snd (raise x w))"
  by (simp add: raise_def)

lemma steady_bind:
  assumes "\<And>w. steady w (snd (f w))" and "\<And>a w. steady w (snd (g a w))"
  shows "steady w (snd (bind f g w))"
proof (cases "f w")
  case (Pair r w1)
  with assms(1) [of w] have s: "steady w w1" by simp
  show ?thesis
  proof (cases r)
    case (Inl x)
    with Pair s show ?thesis by (simp add: bind_def)
  next
    case (Inr a)
    with Pair have "bind f g w = g a w1" by (simp add: bind_def)
    with s assms(2) [of w1 a] show ?thesis by (auto intro: steady_trans)
  qed
qed

lemma steady_try_except:
  assumes "\<And>w. steady w (snd (f w))" and "\<And>ex w. steady w (snd (h ex w))"
  shows "steady w (snd (try_except f h w))"
proof (cases "f w")
  case (Pair r w1)
  with assms(1) [of w] have s: "steady w w1" by simp
  show ?thesis
  proof (cases r)
    case (Inr a)
    with Pair s show ?thesis by (simp add: try_except_def)
  next
    case (Inl x)
    show ?thesis
    proof (cases x)
      case (Raise ex)
      with Inl Pair have "try_except f h w = h ex w1" by (simp add: try_except_def)
      with s assms(2) [of w1 ex] show ?thesis by (auto intro: steady_trans)
    next
      case (Fail msg)
      with Inl Pair s show ?thesis by (simp add: try_except_def)
    next
      case (Unmodelled msg)
      with Inl Pair s show ?thesis by (simp add: try_except_def)
    qed
  qed
qed

lemma steady_if:
  assumes "steady w (snd (f w))" and "steady w (snd (g w))"
  shows "steady w (snd ((if c then f else g) w))"
  using assms by simp

lemma steady_if_w:
  assumes "steady w (snd (f w))" and "steady w (snd (g w))"
  shows "steady w (snd (if c then f w else g w))"
  using assms by simp

lemma steady_allure_step: "steady w (snd (allure_step s w))"
  by (simp add: allure_step_def steady_def)

lemma steady_allure_attach: "steady w (snd (allure_attach c n t w))"
  by (simp add: allure_attach_def steady_def)

lemma steady_call: "\<not> is_stop ev \<Longrightarrow> steady w (snd (call ev outcome w))"
  by (simp add: call_eq steady_def)

lemma steady_log_plain:
  "msg \<noteq> ''All drivers stopped and cleanup completed.'' \<Longrightarrow>
   steady w (snd (Reporter_log_plain msg w))"
  by (simp add: Reporter_log_plain_eq steady_def count_list_snoc teardown_line_def)

lemma steady_append_file: "steady w (snd (append_file p s w))"
  by (simp add: append_file_def steady_def split: option.splits fsnode.splits)

lemma dirname_join:
  assumes "CHR ''/'' \<notin> set name" and "dir \<noteq> []" and "last dir \<noteq> CHR ''/''"
  shows "os_path_join dir name = dir @ ''/'' @ name"
    and "os_path_dirname (dir @ ''/'' @ name) = dir"
proof -
  show "os_path_join dir name = dir @ ''/'' @ name"
    using assms by (cases name) (auto simp add: os_path_join_def)
  have none: "rfind_from CHR ''/'' ys j f = f" if "CHR ''/'' \<notin> set ys" for ys j f
    using that by (induction ys arbitrary: j f) auto
  have at: "rfind_from CHR ''/'' (xs @ CHR ''/'' # name) j f = int (j + length xs)" for xs j f
    using assms(1) by (induction xs arbitrary: j f) (simp_all add: none)
  have r: "str_rfind (dir @ ''/'' @ name) CHR ''/'' = int (length dir)"
    using at [of dir 0] by (simp add: str_rfind_def)
  have h: "take (nat (int (length dir) + 1)) (dir @ ''/'' @ name) = dir @ ''/''"
    by (simp add: nat_add_distrib)
  have nall: "\<not> list_all (\<lambda>c. c = CHR ''/'') (dir @ ''/'')"
  proof
    assume "list_all (\<lambda>c. c = CHR ''/'') (dir @ ''/'')"
    then have "\<forall>c\<in>set dir. c = CHR ''/''" by (simp add: list_all_iff)
    moreover have "last dir \<in> set dir" using assms(2) by (rule last_in_set)
    ultimately have "last dir = CHR ''/''" by blast
    with assms(3) show False by simp
  qed
  then have c: "dir @ ''/'' \<noteq> [] \<and> \<not> list_all (\<lambda>c. c = CHR ''/'') (dir @ ''/'')"
    by simp
  obtain ys y where d: "dir = ys @ [y]"
    using assms(2) by (cases dir rule: rev_cases) simp_all
  with assms(3) have "y \<noteq> CHR ''/''" by simp
  then have "rstrip_slash ((ys @ [y]) @ ''/'') = ys @ [y]"
    by (simp add: rstrip_slash_def)
  then have strip: "rstrip_slash (dir @ ''/'') = dir"
    unfolding d .
  show "os_path_dirname (dir @ ''/'' @ name) = dir"
    unfolding os_path_dirname_def Let_def r h if_P [OF c] by (rule strip)
qed

lemma log_directory_shape:
  "os_path_join a ''screenshots-and-logs'' \<noteq> [] \<and>
   last (os_path_join a ''screenshots-and-logs'') \<noteq> CHR ''/'' \<and>
   \<not> list_all (\<lambda>c. c = CHR ''/'') (os_path_join a ''screenshots-and-logs'')"
  by (simp add: os_path_join_def)

lemma open_parent_error_dir:
  assumes "CHR ''/'' \<notin> set name" and "dir \<noteq> []" and "last dir \<noteq> CHR ''/''"
      and "fs w dir = Some Dir"
  shows "open_parent_error w (dir @ ''/'' @ name) = None"
  unfolding open_parent_error_def Let_def dirname_join(2) [OF assms(1-3)]
  by (simp add: assms(4))

lemma steady_read_file: "steady w (snd (read_file p w))"
  by (simp add: read_file_def split: option.splits fsnode.splits)

lemma steady_makedirs: "steady w (snd (os_makedirs p exist_ok w))"
  by (simp add: os_makedirs_def steady_def split: option.splits fsnode.splits)

lemmas steady_intros =
  steady_bind steady_try_except steady_if steady_if_w steady_ret steady_raise steady_allure_step
  steady_allure_attach steady_append_file steady_read_file steady_makedirs

lemma steady_attach_file: "steady w (snd (attach_file_to_allure p nm w))"
  unfolding attach_file_to_allure_def Let_def
  by (intro steady_intros steady_log_plain; simp)

lemma steady_start_appium: "steady w (snd (start_appium_driver cfg e w))"
  unfolding start_appium_driver_def Let_def Reporter_log_False
  by (intro steady_intros steady_log_plain steady_call; simp)

lemma steady_start_selenium: "steady w (snd (start_selenium_driver cfg e w))"
  unfolding start_selenium_driver_def Let_def Reporter_log_False
  by (intro steady_intros steady_log_plain steady_call; simp)

lemma steady_set_reporter:
  "steady w (snd ((\<lambda>w. (Inr (), w\<lparr>Reporter_alt_driver := Some d\<rparr>)) w))"
  by (simp add: steady_def)

lemma steady_start_alttester: "steady w (snd (start_alttester_driver cfg e w))"
  unfolding start_alttester_driver_def Let_def Reporter_log_False
  by (intro steady_intros steady_log_plain steady_call steady_set_reporter; simp)

lemma steady_start_all: "steady w (snd (start_all_drivers cfg e w))"
  unfolding start_all_drivers_def Let_def Reporter_log_False
  by (intro steady_intros steady_log_plain steady_start_appium steady_start_selenium
        steady_start_alttester; simp)

lemma steady_moved: "steady w w' = moved w w' [] 0"
  by (simp add: steady_def moved_def)

lemma moved_trans:
  "moved w w1 s1 k1 \<Longrightarrow> moved w1 w2 s2 k2 \<Longrightarrow> moved w w2 (s1 @ s2) (k1 + k2)"
  by (auto simp add: moved_def)

lemma ok_mild: "ok r \<Longrightarrow> mild r"
  by (cases r) (simp_all add: ok_def mild_def)

lemma ok_ret: "ok (fst (ret a w))"
  by (simp add: ret_def ok_def)

lemma mild_ret: "mild (fst (ret a w))"
  by (simp add: ret_def mild_def)

lemma mild_raise: "mild (fst (raise (Raise ex) w))"
  by (simp add: raise_def mild_def)

lemma ok_bind:
  assumes "\<And>w. ok (fst (f w))" and "\<And>a w. ok (fst (g a w))"
  shows "ok (fst (bind f g w))"
proof (cases "f w")
  case (Pair r w1)
  with assms(1) [of w] obtain a where "r = Inr a"
    by (cases r) (simp_all add: ok_def)
  with Pair assms(2) [of a w1] show ?thesis by (simp add: bind_def)
qed

lemma mild_bind:
  assumes "\<And>w. mild (fst (f w))" and "\<And>a w. mild (fst (g a w))"
  shows "mild (fst (bind f g w))"
proof (cases "f w")
  case (Pair r w1)
  show ?thesis
  proof (cases r)
    case (Inl x)
    with Pair assms(1) [of w] show ?thesis by (cases x) (simp_all add: bind_def mild_def)
  next
    case (Inr a)
    with Pair assms(2) [of a w1] show ?thesis by (simp add: bind_def)
  qed
qed

lemma ok_try_except:
  assumes "\<And>w. mild (fst (f w))" and "\<And>ex w. ok (fst (h ex w))"
  shows "ok (fst (try_except f h w))"
proof (cases "f w")
  case (Pair r w1)
  show ?thesis
  proof (cases r)
    case (Inr a)
    with Pair show ?thesis by (simp add: try_except_def ok_def)
  next
    case (Inl x)
    with Pair assms(1) [of w] obtain ex where "x = Raise ex"
      by (cases x) (simp_all add: mild_def)
    with Inl Pair assms(2) [of ex w1] show ?thesis by (simp add: try_except_def)
  qed
qed

lemma ok_if_w:
  assumes "ok (fst (f w))" and "ok (fst (g w))"
  shows "ok (fst (if c then f w else g w))"
  using assms by simp

lemma mild_if_w:
  assumes "mild (fst (f w))" and "mild (fst (g w))"
  shows "mild (fst (if c then f w else g w))"
  using assms by simp

lemma ok_log_plain: "ok (fst (Reporter_log_plain msg w))"
  by (simp add: Reporter_log_plain_eq ok_def)

lemma ok_allure_step: "ok (fst (allure_step s w))"
  by (simp add: allure_step_def ok_def)

lemma ok_allure_attach: "ok (fst (allure_attach c n t w))"
  by (simp add: allure_attach_def ok_def)

lemma mild_append_file: "mild (fst (append_file p s w))"
  by (simp add: append_file_def mild_def split: option.splits fsnode.splits)

lemma mild_read_file: "mild (fst (read_file p w))"
  by (simp add: read_file_def mild_def split: option.splits fsnode.splits)

lemmas ok_intros = ok_bind ok_try_except ok_if_w ok_ret ok_log_plain ok_allure_step
  ok_allure_attach

lemmas mild_intros = mild_bind mild_if_w mild_ret mild_raise mild_append_file mild_read_file
  ok_log_plain [THEN ok_mild] ok_allure_step [THEN ok_mild] ok_allure_attach [THEN ok_mild]

lemma ok_attach_file: "ok (fst (attach_file_to_allure p nm w))"
  unfolding attach_file_to_allure_def Let_def
  by (intro ok_intros mild_intros)

lemma ok_log_callback: "ok (fst (log_callback e l n ul w))"
  unfolding log_callback_def Let_def Reporter_log_False
  by (intro ok_intros mild_intros)

lemma steady_log_callback: "steady w (snd (log_callback e l n ul w))"
  unfolding log_callback_def Let_def Reporter_log_False
  by (intro steady_intros steady_log_plain; simp)

lemma ok_deliver: "ok (fst (deliver e lo ns ul w))"
proof (induction e lo ns ul arbitrary: w rule: deliver.induct)
  case (3 e l n ns unity_logs)
  show ?case
    unfolding deliver.simps by (intro ok_bind ok_log_callback "3.IH")
qed (simp_all add: ok_ret)

lemma steady_deliver: "steady w (snd (deliver e lo ns ul w))"
proof (induction e lo ns ul arbitrary: w rule: deliver.induct)
  case (3 e l n ns unity_logs)
  show ?case
    unfolding deliver.simps by (intro steady_bind steady_log_callback "3.IH")
qed (simp_all add: steady_ret)

lemma ok_add_unity_logs_loop: "ok (fst (add_unity_logs_loop e items ul w))"
proof (induction e items ul arbitrary: w rule: add_unity_logs_loop.induct)
  case (2 e filename filepath items unity_logs)
  show ?case
    unfolding add_unity_logs_loop.simps Reporter_log_False
    by (intro ok_intros ok_attach_file [THEN ok_mild] "2.IH")
qed (simp add: ok_ret)

lemma steady_add_unity_logs_loop: "steady w (snd (add_unity_logs_loop e items ul w))"
proof (induction e items ul arbitrary: w rule: add_unity_logs_loop.induct)
  case (2 e filename filepath items unity_logs)
  show ?case
    unfolding add_unity_logs_loop.simps Reporter_log_False
    by (intro steady_intros steady_attach_file steady_log_plain "2.IH"; simp)
qed (simp add: steady_ret)

lemma add_unity_logs_loop_result:
  "fst (add_unity_logs_loop e items ul w)
     = Inr (filter (\<lambda>kv. fst kv \<notin> set (map fst items)) ul)"
proof (induction e items ul arbitrary: w rule: add_unity_logs_loop.induct)
  case (1 e unity_logs)
  show ?case by (simp add: ret_def)
next
  case (2 e filename filepath items unity_logs)
  let ?f = "try_except (attach_file_to_allure filepath (Some filename))
              (\<lambda>ex. Reporter_log e ''No Unity logs found.'' False)"
  have "ok (fst (?f w))"
    unfolding Reporter_log_False
    by (intro ok_intros ok_attach_file [THEN ok_mild])
  then obtain w1 where "?f w = (Inr (), w1)"
    by (cases "?f w"; cases "fst (?f w)") (auto simp add: ok_def)
  then show ?case
    using "2.IH" [of w1] by (simp add: bind_def dict_pop_def conj_commute)
qed

lemma add_unity_logs_to_allure_empties:
  "fst (add_unity_logs_to_allure e ul w) = Inr []"
  by (simp add: add_unity_logs_to_allure_def add_unity_logs_loop_result)

lemma steady_setup_listener: "steady w (snd (setup_unity_log_listener e d req w))"
  unfolding setup_unity_log_listener_def Let_def Reporter_log_False
  by (intro steady_intros steady_log_plain steady_call; simp add: ret_def)

lemma stop_all_drivers_effect:
  "fst (stop_all_drivers e d w) = Inr () \<and>
   now (snd (stop_all_drivers e d w)) = now w \<and>
   calls (snd (stop_all_drivers e d w)) = calls w @ stop_calls e d \<and>
   stdout (snd (stop_all_drivers e d w)) = stdout w
     @ [''['' @ strftime_log (now w) @ ''] ''
        @ (case (if alt_driver d \<noteq> None \<and> alt_stop e \<noteq> None then alt_stop e
                 else if selenium_driver d \<noteq> None \<and> selenium_quit e \<noteq> None
                      then selenium_quit e
                 else if appium_driver d \<noteq> None then appium_quit e else None) of
             None \<Rightarrow> ''All drivers stopped successfully''
           | Some ex \<Rightarrow> ''Error stopping drivers: '' @ str_exc ex)]"
  by (cases "alt_driver d"; cases "alt_stop e"; cases "selenium_driver d";
      cases "selenium_quit e"; cases "appium_driver d"; cases "appium_quit e";
      simp add: stop_all_drivers_def try_except_def bind_def ret_def call_eq
        Reporter_log_plain_eq stop_calls_def)

lemma is_stop_stop_calls: "filter is_stop (stop_calls e d) = stop_calls e d"
  by (simp add: stop_calls_def)

lemma moved_stop_all_drivers:
  "moved w (snd (stop_all_drivers e d w)) (stop_calls e d) 0"
  using stop_all_drivers_effect [of e d w]
  by (auto simp add: moved_def is_stop_stop_calls count_list_snoc teardown_line_def
        split: option.splits)

lemma moved_teardown_log:
  "moved w (snd (Reporter_log_plain ''All drivers stopped and cleanup completed.'' w)) [] 1"
  by (simp add: Reporter_log_plain_eq moved_def count_list_snoc teardown_line_def)

lemma setup_drivers_finally_effect:
  "fst (setup_drivers_finally e ul drv w) = Inr () \<and>
   moved w (snd (setup_drivers_finally e ul drv w))
     (case drv of None \<Rightarrow> [] | Some d \<Rightarrow> stop_calls e d) 1"
proof -
  obtain ul' w1 where a: "add_unity_logs_to_allure e ul w = (Inr ul', w1)"
    using add_unity_logs_to_allure_empties [of e ul w]
    by (cases "add_unity_logs_to_allure e ul w") auto
  have s1: "moved w w1 [] 0"
    using steady_add_unity_logs_loop [of w e ul ul] a
    by (simp add: add_unity_logs_to_allure_def steady_moved)
  let ?stop = "case drv of None \<Rightarrow> ret () | Some d \<Rightarrow> stop_all_drivers e d"
  have "fst (?stop w1) = Inr ()"
    by (cases drv) (simp_all add: ret_def stop_all_drivers_effect)
  then obtain w2 where b: "?stop w1 = (Inr (), w2)"
    by (cases "?stop w1") simp
  have s2: "moved w1 w2 (case drv of None \<Rightarrow> [] | Some d \<Rightarrow> stop_calls e d) 0"
  proof (cases drv)
    case None
    with b have "w2 = w1" by (simp add: ret_def)
    with None show ?thesis by (simp add: moved_def)
  next
    case (Some d)
    with b moved_stop_all_drivers [of w1 e d] show ?thesis by simp
  qed
  have c: "setup_drivers_finally e ul drv w
             = Reporter_log_plain ''All drivers stopped and cleanup completed.'' w2"
    using a b by (simp add: setup_drivers_finally_def bind_def)
  have s3: "moved w2 (snd (setup_drivers_finally e ul drv w)) [] 1"
    unfolding c by (rule moved_teardown_log)
  from moved_trans [OF moved_trans [OF s1 s2] s3] c show ?thesis
    by (simp add: Reporter_log_plain_eq)
qed

lemma moved_try_finally_teardown:
  "moved w (snd (try_finally (\<lambda>w. (r, w)) (setup_drivers_finally e ul drv) w))
     (case drv of None \<Rightarrow> [] | Some d \<Rightarrow> stop_calls e d) 1"
  using setup_drivers_finally_effect [of e ul drv w]
  by (cases "setup_drivers_finally e ul drv w") (auto simp add: try_finally_def)

lemma setup_drivers_body_effect:
  "steady w (snd (setup_drivers_body cfg e req w)) \<and>
   (case fst (setup_drivers_body cfg e req w) of
      Inl (x, drv) \<Rightarrow> drv = started cfg e w
    | Inr (d, l) \<Rightarrow> started cfg e w = Some d)"
proof -
  let ?w0 = "snd (allure_step ''Initialize Test Configuration and Start All Drivers'' w)"
  have s0: "steady w ?w0" by (rule steady_allure_step)
  obtain r w1 where a: "start_all_drivers cfg e ?w0 = (r, w1)"
    by (cases "start_all_drivers cfg e ?w0")
  have s1: "steady w w1"
    using steady_trans [OF s0 steady_start_all [of ?w0 cfg e]] a by simp
  show ?thesis
  proof (cases r)
    case (Inl x)
    with a s1 show ?thesis
      by (simp add: setup_drivers_body_def started_def allure_step_def)
  next
    case (Inr d)
    obtain r2 w2 where b: "setup_unity_log_listener e d req w1 = (r2, w2)"
      by (cases "setup_unity_log_listener e d req w1")
    have s2: "steady w w2"
      using steady_trans [OF s1 steady_setup_listener [of w1 e d req]] b by simp
    have s3: "steady w (w2\<lparr>cls_drivers := Some d\<rparr>)"
      using s2 by (simp add: steady_def)
    from a b Inr s2 s3 show ?thesis
      by (cases r2; cases "cls req")
         (simp_all add: setup_drivers_body_def started_def allure_step_def)
  qed
qed

lemma moved_run_class:
  "moved w (snd (run_class cfg e req ns w))
     (case started cfg e w of None \<Rightarrow> [] | Some d \<Rightarrow> stop_calls e d) 1"
proof -
  obtain r w1 where a: "setup_drivers_body cfg e req w = (r, w1)"
    by (cases "setup_drivers_body cfg e req w")
  have s1: "moved w w1 [] 0"
    using setup_drivers_body_effect [of w cfg e req] a by (simp add: steady_moved)
  show ?thesis
  proof (cases r)
    case (Inl xd)
    obtain x drv where xd: "xd = (x, drv)" by (cases xd)
    have drv: "drv = started cfg e w"
      using setup_drivers_body_effect [of w cfg e req] a Inl xd by simp
    have "\<exists>r'. setup_drivers_setup cfg e req w
            = try_finally (\<lambda>w. (r', w)) (setup_drivers_finally e [] drv) w1"
      using a Inl xd by (cases x) (auto simp add: setup_drivers_setup_def raise_def)
    then obtain r' where b: "setup_drivers_setup cfg e req w
            = try_finally (\<lambda>w. (r', w)) (setup_drivers_finally e [] drv) w1" ..
    have c: "\<exists>x'. fst (setup_drivers_setup cfg e req w) = Inl x'"
      using a Inl xd setup_drivers_finally_effect [of e "[]" drv w1]
      by (cases x; cases "setup_drivers_finally e [] drv w1")
         (auto simp add: setup_drivers_setup_def raise_def try_finally_def)
    then have "snd (run_class cfg e req ns w) = snd (setup_drivers_setup cfg e req w)"
      by (cases "setup_drivers_setup cfg e req w") (auto simp add: run_class_def bind_def)
    with b moved_try_finally_teardown [of w1 r' e "[]" drv]
    have "moved w1 (snd (run_class cfg e req ns w))
            (case drv of None \<Rightarrow> [] | Some d \<Rightarrow> stop_calls e d) 1" by simp
    from moved_trans [OF s1 this] drv show ?thesis by simp
  next
    case (Inr y)
    obtain d l where y: "y = (d, l)" by (cases y)
    have st: "started cfg e w = Some d"
      using setup_drivers_body_effect [of w cfg e req] a Inr y by simp
    have b: "setup_drivers_setup cfg e req w = (Inr (d, l), w1)"
      using a Inr y by (simp add: setup_drivers_setup_def)
    obtain ul w2 where c: "deliver e l ns [] w1 = (Inr ul, w2)"
      using ok_deliver [of e l ns "[]" w1]
      by (cases "deliver e l ns [] w1"; cases "fst (deliver e l ns [] w1)")
         (auto simp add: ok_def)
    have s2: "moved w1 w2 [] 0"
      using steady_deliver [of w1 e l ns "[]"] c by (simp add: steady_moved)
    have "run_class cfg e req ns w = setup_drivers_teardown e d ul w2"
      using b c by (simp add: run_class_def bind_def)
    then have "snd (run_class cfg e req ns w)
                 = snd (try_finally (\<lambda>w. (Inr (), w)) (setup_drivers_finally e ul (Some d)) w2)"
      by (simp add: setup_drivers_teardown_def ret_def)
    with moved_try_finally_teardown [of w2 "Inr ()" e ul "Some d"]
    have "moved w2 (snd (run_class cfg e req ns w)) (stop_calls e d) 1" by simp
    from moved_trans [OF moved_trans [OF s1 s2] this] st show ?thesis by simp
  qed
qed

lemma attach_file_effect:
  assumes "fs w p = Some (File content)"
  shows "fst (attach_file_to_allure p custom_name w) = Inr () \<and>
         fs (snd (attach_file_to_allure p custom_name w)) = fs w \<and>
         allure_attachments (snd (attach_file_to_allure p custom_name w)) =
           allure_attachments w @
             [(content,
               str_or custom_name (fst (os_path_splitext (os_path_basename p))),
               (let ext = str_lower (snd (os_path_splitext p))
                in if ext = ''.txt'' then TEXT else if ext = ''.json'' then JSON
                   else if ext = ''.xml'' then XML else if ext = ''.html'' then HTML
                   else if ext = ''.csv'' then CSV else TEXT))]"
  using assms
  by (simp add: attach_file_to_allure_def Let_def bind_def allure_step_def try_except_def
        os_path_exists_def Reporter_log_plain_eq read_file_def allure_attach_def
        dict_get_def content_type_map_def)

lemma setup_unity_log_listener_Some:
  assumes "setup_unity_log_listener e d req w = (Inr (Some l), w1)"
  shows "l = \<lparr>lst_request = req,
              lst_log_directory = os_path_join (os_getcwd e) ''screenshots-and-logs'',
              lst_timestamp = strftime_run (now w)\<rparr> \<and>
         fs w1 (os_path_join (os_getcwd e) ''screenshots-and-logs'') = Some Dir"
  using assms
  by (cases "alt_add_listener e";
      cases "fs w (os_path_join (os_getcwd e) ''screenshots-and-logs'')")
     (auto simp add: setup_unity_log_listener_def Let_def bind_def Reporter_log_plain_eq
        os_makedirs_def call_eq ret_def split: if_splits fsnode.splits)

lemma log_parent_ok:
  assumes "CHR ''/'' \<notin> set name" and "dir \<noteq> []" and "last dir \<noteq> CHR ''/''"
      and "fs w dir = Some Dir" and "filepath = dir @ ''/'' @ name"
  shows "open_parent_error w filepath = None"
    and "open_parent_error (w\<lparr>fs := (fs w)(filepath \<mapsto> node)\<rparr>) filepath = None"
proof -
  show "open_parent_error w filepath = None"
    unfolding assms(5) using assms(1-4) by (rule open_parent_error_dir)
  have "length filepath \<noteq> length dir" unfolding assms(5) by simp
  then have "filepath \<noteq> dir" by auto
  then have "fs (w\<lparr>fs := (fs w)(filepath \<mapsto> node)\<rparr>) dir = Some Dir"
    using assms(4) by simp
  then show "open_parent_error (w\<lparr>fs := (fs w)(filepath \<mapsto> node)\<rparr>) filepath = None"
    unfolding assms(5) using assms(1-3) open_parent_error_dir by blast
qed

lemma bind_Inr: "f w = (Inr a, w1) \<Longrightarrow> bind f g w = g a w1"
  by (simp add: bind_def)

lemma log_callback_core:
  assumes "filename = (case cls (lst_request l) of Some c \<Rightarrow> c | None \<Rightarrow> ''UnknownTest'')
                       @ ''-UnityLogs-'' @ lst_timestamp l @ ''.txt''"
      and "os_path_join (lst_log_directory l) filename = filepath"
      and "open_parent_error w filepath = None"
      and "\<And>c. open_parent_error (w\<lparr>fs := (fs w)(filepath \<mapsto> File c)\<rparr>) filepath = None"
      and "fs w filepath \<noteq> Some Dir"
  shows "log_callback e l n ul w =
     (Inr (if map_of ul filename = None then ul @ [(filename, filepath)] else ul),
      w\<lparr>fs := (fs w)(filepath \<mapsto> File (file_text (fs w filepath) @ message n @ newline
                    @ ''StackTrace : '' @ stack_trace n @ newline))\<rparr>)"
proof -
  let ?line1 = "message n @ newline"
  let ?line2 = "''StackTrace : '' @ stack_trace n @ newline"
  let ?w1 = "w\<lparr>fs := (fs w)(filepath \<mapsto> File (file_text (fs w filepath) @ ?line1))\<rparr>"
  have a1: "append_file filepath ?line1 w = (Inr (), ?w1)"
  proof (cases "fs w filepath")
    case None
    with assms(3) show ?thesis by (simp add: append_file_def file_text_def)
  next
    case (Some node)
    with assms(5) obtain c where "node = File c" by (cases node) simp_all
    with Some assms(3) show ?thesis by (simp add: append_file_def file_text_def)
  qed
  have a2: "append_file filepath ?line2 ?w1 =
              (Inr (), w\<lparr>fs := (fs w)(filepath \<mapsto>
                 File (file_text (fs w filepath) @ ?line1 @ ?line2))\<rparr>)"
    using assms(4) [of "file_text (fs w filepath) @ ?line1"]
    by (simp add: append_file_def)
  have body: "bind (append_file filepath ?line1) (\<lambda>_.
           bind (append_file filepath ?line2) (\<lambda>_.
           ret (if map_of ul filename = None
                then ul @ [(filename, filepath)] else ul))) w =
        (Inr (if map_of ul filename = None then ul @ [(filename, filepath)] else ul),
         w\<lparr>fs := (fs w)(filepath \<mapsto>
                 File (file_text (fs w filepath) @ ?line1 @ ?line2))\<rparr>)"
    by (simp only: bind_Inr [where f = "append_file filepath ?line1" and w = w, OF a1]
          bind_Inr [where f = "append_file filepath ?line2" and w = ?w1, OF a2] ret_def)
  show ?thesis
    unfolding log_callback_def Let_def assms(1) [symmetric] assms(2) try_except_def body
    by simp
qed

lemma deliver_core:
  assumes "filename = (case cls (lst_request l) of Some c \<Rightarrow> c | None \<Rightarrow> ''UnknownTest'')
                       @ ''-UnityLogs-'' @ lst_timestamp l @ ''.txt''"
      and "os_path_join (lst_log_directory l) filename = filepath"
      and "open_parent_error w filepath = None"
      and "\<And>c. open_parent_error (w\<lparr>fs := (fs w)(filepath \<mapsto> File c)\<rparr>) filepath = None"
      and "fs w filepath \<noteq> Some Dir"
  shows "deliver e (Some l) (n # ns) ul w =
     (Inr (if map_of ul filename = None then ul @ [(filename, filepath)] else ul),
      w\<lparr>fs := (fs w)(filepath \<mapsto> File (file_text (fs w filepath)
         @ concat (map (\<lambda>n. message n @ newline @ ''StackTrace : '' @ stack_trace n @ newline)
                       (n # ns))))\<rparr>)"
  using assms(3,4,5)
proof (induction ns arbitrary: n ul w)
  case Nil
  show ?case
    by (simp add: bind_def ret_def
          log_callback_core [OF assms(1,2) Nil.prems(1) Nil.prems(2) Nil.prems(3)] fun_upd_def)
next
  case (Cons n' ns)
  let ?ul1 = "if map_of ul filename = None then ul @ [(filename, filepath)] else ul"
  let ?w1 = "w\<lparr>fs := (fs w)(filepath \<mapsto> File (file_text (fs w filepath) @ message n @ newline
                    @ ''StackTrace : '' @ stack_trace n @ newline))\<rparr>"
  have step: "log_callback e l n ul w = (Inr ?ul1, ?w1)"
    using log_callback_core [OF assms(1,2) Cons.prems(1) Cons.prems(2) Cons.prems(3)] .
  have p0: "open_parent_error ?w1 filepath = None" by (rule Cons.prems(2))
  have p1: "open_parent_error (?w1\<lparr>fs := (fs ?w1)(filepath \<mapsto> File c)\<rparr>) filepath = None" for c
  proof -
    have "?w1\<lparr>fs := (fs ?w1)(filepath \<mapsto> File c)\<rparr> = w\<lparr>fs := (fs w)(filepath \<mapsto> File c)\<rparr>"
      by simp
    then show ?thesis by (simp only: Cons.prems(2))
  qed
  have nd: "fs ?w1 filepath \<noteq> Some Dir" by simp
  have known: "map_of ?ul1 filename \<noteq> None" by (simp add: map_add_Some_iff)
  have e1: "deliver e (Some l) (n # n' # ns) ul w
          = bind (log_callback e l n ul) (\<lambda>ul'. deliver e (Some l) (n' # ns) ul') w"
    by (rule deliver.simps(3) [THEN fun_cong])
  have e2: "bind (log_callback e l n ul) (\<lambda>ul'. deliver e (Some l) (n' # ns) ul') w
          = deliver e (Some l) (n' # ns) ?ul1 ?w1"
    by (simp only: bind_def step prod.case sum.case)
  have e3: "deliver e (Some l) (n' # ns) ?ul1 ?w1 =
     (Inr (if map_of ?ul1 filename = None then ?ul1 @ [(filename, filepath)] else ?ul1),
      ?w1\<lparr>fs := (fs ?w1)(filepath \<mapsto> File (file_text (fs ?w1 filepath)
         @ concat (map (\<lambda>n. message n @ newline @ ''StackTrace : '' @ stack_trace n @ newline)
                       (n' # ns))))\<rparr>)"
    by (rule Cons.IH [OF p0 p1 nd])
  have e4: "(if map_of ?ul1 filename = None then ?ul1 @ [(filename, filepath)] else ?ul1)
              = ?ul1"
    using known by (rule if_not_P)
  have e5: "?w1\<lparr>fs := (fs ?w1)(filepath \<mapsto> File (file_text (fs ?w1 filepath)
         @ concat (map (\<lambda>n. message n @ newline @ ''StackTrace : '' @ stack_trace n @ newline)
                       (n' # ns))))\<rparr>
      = w\<lparr>fs := (fs w)(filepath \<mapsto> File (file_text (fs w filepath)
         @ concat (map (\<lambda>n. message n @ newline @ ''StackTrace : '' @ stack_trace n @ newline)
                       (n # n' # ns))))\<rparr>"
    by (simp add: file_text_def)
  show ?case
    unfolding e1 e2 e3 e4 e5 by (rule refl)
qed

lemma registered_listener_paths:
  assumes "setup_unity_log_listener e d req w0 = (Inr (Some l), w1)"
      and "filename = (case cls req of Some c \<Rightarrow> c | None \<Rightarrow> ''UnknownTest'')
                       @ ''-UnityLogs-'' @ strftime_run (now w0) @ ''.txt''"
      and "CHR ''/'' \<notin> set filename"
      and "directory = os_path_join (os_getcwd e) ''screenshots-and-logs''"
      and "filepath = os_path_join directory filename"
      and "fs w directory = Some Dir"
  shows "filename = (case cls (lst_request l) of Some c \<Rightarrow> c | None \<Rightarrow> ''UnknownTest'')
                       @ ''-UnityLogs-'' @ lst_timestamp l @ ''.txt''"
    and "os_path_join (lst_log_directory l) filename = filepath"
    and "filepath = directory @ ''/'' @ filename"
    and "open_parent_error w filepath = None"
    and "open_parent_error (w\<lparr>fs := (fs w)(filepath \<mapsto> File c)\<rparr>) filepath = None"
    and "fs w1 directory = Some Dir"
proof -
  have l: "l = \<lparr>lst_request = req, lst_log_directory = directory,
                 lst_timestamp = strftime_run (now w0)\<rparr>"
    and d1: "fs w1 directory = Some Dir"
    using setup_unity_log_listener_Some [OF assms(1)] assms(4) by simp_all
  have shape: "directory \<noteq> []" "last directory \<noteq> CHR ''/''"
    using log_directory_shape [of "os_getcwd e"] assms(4) by simp_all
  show "filename = (case cls (lst_request l) of Some c \<Rightarrow> c | None \<Rightarrow> ''UnknownTest'')
                       @ ''-UnityLogs-'' @ lst_timestamp l @ ''.txt''"
    using assms(2) l by simp
  show p: "filepath = directory @ ''/'' @ filename"
    unfolding assms(5) using assms(3) shape by (rule dirname_join(1))
  show "os_path_join (lst_log_directory l) filename = filepath"
    using assms(5) l by simp
  show "open_parent_error w filepath = None"
    using assms(3) shape assms(6) p by (rule log_parent_ok(1))
  show "open_parent_error (w\<lparr>fs := (fs w)(filepath \<mapsto> File c)\<rparr>) filepath = None"
    using assms(3) shape assms(6) p by (rule log_parent_ok(2))
  show "fs w1 directory = Some Dir" by (rule d1)
qed

lemma unity_log_written:
  assumes "setup_unity_log_listener e d req w0 = (Inr (Some l), w1)"
      and "filename = (case cls req of Some c \<Rightarrow> c | None \<Rightarrow> ''UnknownTest'')
                       @ ''-UnityLogs-'' @ strftime_run (now w0) @ ''.txt''"
      and "CHR ''/'' \<notin> set filename"
      and "directory = os_path_join (os_getcwd e) ''screenshots-and-logs''"
      and "filepath = os_path_join directory filename"
      and "fs w directory = Some Dir"
      and "fs w filepath \<noteq> Some Dir"
  shows "fs w1 directory = Some Dir \<and>
         filepath = directory @ ''/'' @ filename \<and>
         fst (log_callback e l n ul w)
           = Inr (if map_of ul filename = None then ul @ [(filename, filepath)] else ul) \<and>
         fs (snd (log_callback e l n ul w)) =
           (fs w)(filepath \<mapsto> File (file_text (fs w filepath) @ message n @ newline
                       @ ''StackTrace : '' @ stack_trace n @ newline))"
proof -
  note r = registered_listener_paths [OF assms(1-6)]
  show ?thesis
    unfolding log_callback_core [OF r(1) r(2) r(4) r(5) assms(7)]
    using r(3) r(6) by simp
qed

lemma unity_logs_flush_effect:
  assumes "setup_unity_log_listener e d req w0 = (Inr (Some l), w1)"
      and "filename = (case cls req of Some c \<Rightarrow> c | None \<Rightarrow> ''UnknownTest'')
                       @ ''-UnityLogs-'' @ strftime_run (now w0) @ ''.txt''"
      and "CHR ''/'' \<notin> set filename"
      and "directory = os_path_join (os_getcwd e) ''screenshots-and-logs''"
      and "filepath = os_path_join directory filename"
      and "fs w directory = Some Dir"
      and "fs w filepath \<noteq> Some Dir"
      and "ns \<noteq> []"
      and "logged = file_text (fs w filepath)
             @ concat (map (\<lambda>n. message n @ newline @ ''StackTrace : '' @ stack_trace n @ newline) ns)"
  shows "\<exists>w2. deliver e (Some l) ns [] w = (Inr [(filename, filepath)], w2) \<and>
           fs w2 filepath = Some (File logged) \<and>
           fst (add_unity_logs_to_allure e [(filename, filepath)] w2) = Inr [] \<and>
           allure_attachments (snd (add_unity_logs_to_allure e [(filename, filepath)] w2)) =
             allure_attachments w @
               [(logged, filename,
                 (let ext = str_lower (snd (os_path_splitext filepath))
                  in if ext = ''.txt'' then TEXT else if ext = ''.json'' then JSON
                     else if ext = ''.xml'' then XML else if ext = ''.html'' then HTML
                     else if ext = ''.csv'' then CSV else TEXT))]"
proof -
  note r = registered_listener_paths [OF assms(1-6)]
  from assms(8) obtain n ns' where ns: "ns = n # ns'" by (cases ns) simp_all
  let ?w2 = "w\<lparr>fs := (fs w)(filepath \<mapsto> File logged)\<rparr>"
  have d: "deliver e (Some l) ns [] w = (Inr [(filename, filepath)], ?w2)"
    using deliver_core [OF r(1) r(2) r(4) r(5) assms(7), of e n ns' "[]"] ns assms(9) by simp
  have f: "fs ?w2 filepath = Some (File logged)" by simp
  have nonempty: "filename \<noteq> []" using assms(2) by simp
  have a: "allure_attachments (snd (add_unity_logs_to_allure e [(filename, filepath)] ?w2)) =
             allure_attachments w @
               [(logged, filename,
                 (let ext = str_lower (snd (os_path_splitext filepath))
                  in if ext = ''.txt'' then TEXT else if ext = ''.json'' then JSON
                     else if ext = ''.xml'' then XML else if ext = ''.html'' then HTML
                     else if ext = ''.csv'' then CSV else TEXT))]"
    using attach_file_effect [OF f, of "Some filename"] nonempty
    by (cases "attach_file_to_allure filepath (Some filename) ?w2")
       (simp add: add_unity_logs_to_allure_def bind_def try_except_def ret_def str_or_def)
  from d f a add_unity_logs_to_allure_empties [of e "[(filename, filepath)]" ?w2]
  show ?thesis by blast
qed

lemmas run_defs = setup_unity_log_listener_def Let_def bind_def Reporter_log_plain_eq
  os_makedirs_def call_eq ret_def raise_def os_path_join_def clock0_run clock0_log
  allure_step_def try_except_def try_finally_def append_file_def read_file_def
  allure_attach_def start_all_drivers_def start_appium_driver_def start_selenium_driver_def
  start_alttester_driver_def stop_all_drivers_def log_callback_def
  add_unity_logs_to_allure_def setup_drivers_body_def setup_drivers_finally_def
  setup_drivers_setup_def setup_drivers_teardown_def run_class_def

lemmas inputs = drivers0_def env0_def world0_def listener0_def request0_def note1_def
  note2_def cfg0_def cfg_webgl_def cfg_appium_def env_stop_fails_def env_no_game_def
  appium_url_def

lemma moved_new_stops:
  assumes "moved w w' S k"
  shows "filter is_stop (drop (length (calls w)) (calls w')) = S"
proof -
  from assms obtain zs where zs: "calls w' = calls w @ zs"
    by (auto simp add: moved_def prefix_def)
  with assms have "filter is_stop zs = S" by (simp add: moved_def)
  with zs show ?thesis by simp
qed

lemma start_all_drivers_alt:
  assumes "start_all_drivers cfg e w = (Inr d, w')"
  shows "alt_driver d \<noteq> None"
  using assms unfolding start_all_drivers_def Reporter_log_False bind_log_plain
  by (elim bind_Inr_E) (auto simp add: Let_def bind_def Reporter_log_plain_eq ret_def)

lemma setup_listener0:
  "setup_unity_log_listener env0 drivers0 request0 world0 = (Inr (Some listener0), world1)"
proof -
  have "fst (setup_unity_log_listener env0 drivers0 request0 world0) = Inr (Some listener0)"
    by (simp add: run_defs inputs)
  then show ?thesis
    by (cases "setup_unity_log_listener env0 drivers0 request0 world0") (simp add: world1_def)
qed

lemma world1_facts:
  "fs world1 ''/home/ci/project/screenshots-and-logs'' = Some Dir"
  "fs world1 log_path0 = None"
  "allure_attachments world1 = []"
  by (simp_all add: world1_def run_defs inputs log_path0_def)

lemma log0_facts:
  "log_name0 = (case cls request0 of Some c \<Rightarrow> c | None \<Rightarrow> ''UnknownTest'')
                 @ ''-UnityLogs-'' @ strftime_run (now world0) @ ''.txt''"
  "CHR ''/'' \<notin> set log_name0"
  "''/home/ci/project/screenshots-and-logs''
     = os_path_join (os_getcwd env0) ''screenshots-and-logs''"
  "log_path0 = os_path_join ''/home/ci/project/screenshots-and-logs'' log_name0"
  by (simp_all add: inputs log_name0_def log_path0_def os_path_join_def clock0_run)

lemma log_path0_ext: "str_lower (snd (os_path_splitext log_path0)) = ''.txt''"
  by code_simp

lemma start_cfg0:
  "fst (start_all_drivers cfg0 env0
          (snd (allure_step ''Initialize Test Configuration and Start All Drivers'' world0)))
     = Inr \<lparr>alt_driver = Some (AltDriver ''127.0.0.1'' 13000 ''__default__''),
            appium_driver = None, selenium_driver = None\<rparr>"
  by (simp add: run_defs inputs)

lemma start_webgl:
  "fst (start_all_drivers cfg_webgl env0 world0) =
   Inr \<lparr>alt_driver = Some (AltDriver ''127.0.0.1'' 13000 ''__default__''),
        appium_driver = None,
        selenium_driver = Some (Chrome [''--no-sandbox'', ''--disable-dev-shm-usage''])\<rparr>"
  by (simp add: run_defs inputs)

lemma run_no_game:
  "calls (snd (run_class cfg_appium env_no_game request0 [] world0)) =
   [AppiumRemote_init ''http://127.0.0.1:4723/wd/hub''
      [(''platformName'', CapStr ''Android''),
       (''automationName'', CapStr ''UiAutomator2''),
       (''newCommandTimeout'', CapInt 2000),
       (''autoGrantPermissions'', CapBool True),
       (''deviceName'', CapStr ''android''),
       (''appPackage'', CapStr ''com.example.app'')],
    AltDriver_init ''127.0.0.1'' 13000 ''__default__'']"
  by (simp add: run_defs inputs)

lemma mild_makedirs: "mild (fst (os_makedirs p okf w))"
  by (simp add: os_makedirs_def mild_def split: option.splits fsnode.splits)

lemma mild_call: "mild (fst (call ev outcome w))"
  by (simp add: call_eq mild_def split: option.splits)

lemma mild_get_png: "mild (fst (get_png_screenshot e p w))"
  unfolding get_png_screenshot_def
  by (intro mild_bind mild_call) (simp add: mild_def split: option.splits fsnode.splits)

lemma ok_take_screenshot: "ok (fst (take_screenshot e nm w))"
  unfolding take_screenshot_def Let_def seqs.simps
  by (intro ok_if_w ok_try_except ok_log_plain mild_bind mild_if_w mild_makedirs mild_get_png
        mild_intros) (simp_all add: mild_def)

lemma ok_Reporter_log: "ok (fst (Reporter_log e msg b w))"
  unfolding Reporter_log_def
  by (intro ok_bind ok_log_plain) (simp add: ok_take_screenshot ok_ret)

lemma bind_ok_raise:
  assumes "ok (fst (f w))"
  shows "fst (bind f (\<lambda>_. raise x) w) = Inl x"
  using assms by (cases "f w"; cases "fst (f w)") (auto simp add: bind_def raise_def ok_def)

lemma bind_allure_step:
  "bind (allure_step s) g w = g () (w\<lparr>allure_steps := allure_steps w @ [s]\<rparr>)"
  by (simp add: bind_def allure_step_def)

lemma wait_for_object_absent:
  assumes "alt_driver (drivers self) \<noteq> None"
      and "alt_wait_for_object e (fst locator) (snd locator) timeout interval = Inl ex"
  shows "fst (wait_for_object e self locator timeout interval w) =
     Inl (Raise (Exc AssertionError
       (''Element '' @ quote @ snd locator @ quote @ '' was not found within ''
        @ timeout @ '' seconds. ''
        @ ''Please check if the element exists or if the game loaded correctly.'')))"
  using assms
  by (auto simp add: wait_for_object_def bind_allure_step bind_log_plain Reporter_log_plain_eq
        try_except_def AltDriver_wait_def call_value_def
        bind_ok_raise [OF ok_Reporter_log])

lemma find_element_absent:
  assumes "alt_driver (drivers self) \<noteq> None"
      and "alt_find_object e (fst locator) (snd locator) = Inl ex"
  shows "fst (find_element e self locator w) =
     Inl (Raise (Exc AssertionError
       (''Element '' @ quote @ snd locator @ quote @ '' was not found. ''
        @ ''Please verify the element exists in the current scene.'')))"
  using assms
  by (auto simp add: find_element_def bind_allure_step
        try_except_def AltDriver_find_def call_value_def
        bind_ok_raise [OF ok_Reporter_log])

lemma failure_screenshot_written:
  assumes "Reporter_alt_driver w \<noteq> None"
      and "rep_call_failed req = Some True"
      and "alt_screenshot e = Inr png"
      and "CHR ''/'' \<notin> set (node_name req)"
      and "dir = os_path_join (os_getcwd e) ''screenshots-and-logs''"
      and "path = os_path_join dir (node_name req @ ''_Failed'' @ ''.png'')"
      and "fs w dir = Some Dir"
      and "fs w path \<noteq> Some Dir"
  shows "fst (auto_screenshot_on_failure e req w) = Inr () \<and>
         fs (snd (auto_screenshot_on_failure e req w)) path = Some (File png) \<and>
         allure_attachments (snd (auto_screenshot_on_failure e req w)) =
           allure_attachments w @ [(png, node_name req @ ''_Failed'', PNG)]"
proof -
  from assms(1) obtain drv where drv: "Reporter_alt_driver w = Some drv" by auto
  have shape: "dir \<noteq> []" "last dir \<noteq> CHR ''/''"
    using log_directory_shape [of "os_getcwd e"] assms(5) by simp_all
  have noslash: "CHR ''/'' \<notin> set (node_name req @ ''_Failed'' @ ''.png'')"
    using assms(4) by simp
  have p: "path = dir @ ''/'' @ (node_name req @ ''_Failed'' @ ''.png'')"
    unfolding assms(6) using noslash shape by (rule dirname_join(1))
  have po: "open_parent_error w path = None"
    unfolding p using noslash shape assms(7) by (rule open_parent_error_dir)
  have "open_parent_error (w\<lparr>calls := cs\<rparr>) path = open_parent_error w path" for cs
    by (simp add: open_parent_error_def Let_def)
  with po have po': "open_parent_error (w\<lparr>calls := cs\<rparr>) path = None" for cs
    by simp
  have j: "os_path_join (os_path_join (os_getcwd e) ''screenshots-and-logs'')
             ((node_name req @ ''_Failed'') @ ''.png'') = path"
    using assms(5,6) by simp
  have ex: "os_path_exists w (os_path_join (os_getcwd e) ''screenshots-and-logs'')"
    using assms(5,7) by (simp add: os_path_exists_def)
  have s: "str_or (Some (node_name req @ ''_Failed'')) d = node_name req @ ''_Failed''" for d
    by (simp add: str_or_def)
  show ?thesis
  proof (cases "fs w path")
    case None
    show ?thesis
      unfolding auto_screenshot_on_failure_def take_screenshot_def Let_def assms(2) s j
      using None drv assms(3) ex
      by (simp add: try_except_def bind_def get_png_screenshot_def call_eq allure_step_def
            read_file_def allure_attach_def ret_def po')
  next
    case (Some node)
    with assms(8) obtain c where c: "node = File c" by (cases node) simp_all
    show ?thesis
      unfolding auto_screenshot_on_failure_def take_screenshot_def Let_def assms(2) s j
      using Some c drv assms(3) ex
      by (simp add: try_except_def bind_def get_png_screenshot_def call_eq allure_step_def
            read_file_def allure_attach_def ret_def po')
  qed
qed

text \<open>
  Where the directory that would hold the log file is missing or is a regular file, the
  callback writes nothing and enters nothing in \<open>unity_logs\<close>: it logs the error.
\<close>

lemma log_callback_without_directory:
  assumes "filepath = os_path_join (lst_log_directory l)
             ((case cls (lst_request l) of Some c \<Rightarrow> c | None \<Rightarrow> ''UnknownTest'')
              @ ''-UnityLogs-'' @ lst_timestamp l @ ''.txt'')"
      and "open_parent_error w filepath = Some ex"
  shows "log_callback e l n ul w =
     (Inr ul,
      w\<lparr>stdout := stdout w @ [''['' @ strftime_log (now w) @ ''] Error saving Unity log: ''
                                @ str_exc ex],
        allure_steps := allure_steps w @ [''['' @ strftime_log (now w)
                                @ ''] Error saving Unity log: '' @ str_exc ex]\<rparr>)"
proof -
  have a: "append_file filepath s w = (Inl (Raise ex), w)" for s
    using assms(2) by (simp add: append_file_def)
  show ?thesis
    unfolding log_callback_def Let_def assms(1) [symmetric]
    by (simp add: try_except_def bind_def a Reporter_log_plain_eq ret_def)
qed

lemma log_path0_dirname:
  "os_path_dirname log_path0 = ''/home/ci/project/screenshots-and-logs''"
  by code_simp

lemma log_callback_before_setup:
  "fst (log_callback env0 listener0 note1 [] world0) = Inr [] \<and>
   fs (snd (log_callback env0 listener0 note1 [] world0)) = fs world0 \<and>
   fs world0 log_path0 = None"
proof -
  have p: "log_path0 = os_path_join (lst_log_directory listener0)
             ((case cls (lst_request listener0) of Some c \<Rightarrow> c | None \<Rightarrow> ''UnknownTest'')
              @ ''-UnityLogs-'' @ lst_timestamp listener0 @ ''.txt'')"
    by (simp add: inputs log_path0_def os_path_join_def)
  have o: "open_parent_error world0 log_path0 = Some (Exc FileNotFoundError log_path0)"
    unfolding open_parent_error_def Let_def log_path0_dirname by (simp add: world0_def)
  have n: "fs world0 log_path0 = None" by (simp add: world0_def log_path0_def)
  show ?thesis
    unfolding log_callback_without_directory [OF p o] using n by simp
qed

section \<open>The reporter\<close>

text \<open>
  C5. For every optional custom name, \<open>take_screenshot\<close> with no primary driver
  registered (\<open>Reporter.alt_driver\<close> is \<open>None\<close>) does not raise: it prints and records
  one message and returns; no file is written, nothing is attached and no client library
  is called.
\<close>

theorem take_screenshot_without_driver:
  assumes "Reporter_alt_driver w = None"
  shows "fst (take_screenshot e custom_name w) = Inr () \<and>
         fs (snd (take_screenshot e custom_name w)) = fs w \<and>
         allure_attachments (snd (take_screenshot e custom_name w)) = allure_attachments w \<and>
         calls (snd (take_screenshot e custom_name w)) = calls w \<and>
         stdout (snd (take_screenshot e custom_name w)) =
           stdout w @ [''['' @ strftime_log (now w)
                       @ ''] Cannot take screenshot: AltDriver not set'']"
  using assms by (simp add: take_screenshot_def Reporter_log_plain_eq)

theorem take_screenshot_without_driver_witness:
  "Reporter_alt_driver world0 = None \<and>
   fst (take_screenshot env0 (Some ''test_can_start_new_game_Failed'') world0) = Inr () \<and>
   allure_attachments
     (snd (take_screenshot env0 (Some ''test_can_start_new_game_Failed'') world0)) = [] \<and>
   stdout (snd (take_screenshot env0 (Some ''test_can_start_new_game_Failed'') world0)) =
     [''[2024-03-09 14:05:00] Cannot take screenshot: AltDriver not set'']"
  using take_screenshot_without_driver
          [of world0 env0 "Some ''test_can_start_new_game_Failed''"]
  by (simp add: world0_def clock0_log)

text \<open>
  C6. For every path that does not exist and every optional custom name,
  \<open>attach_file_to_allure\<close> does not raise: it logs that the file was not found and
  returns; nothing is attached and no file is touched.
\<close>

theorem attach_missing_file_fails_soft:
  assumes "fs w p = None"
  shows "fst (attach_file_to_allure p custom_name w) = Inr () \<and>
         allure_attachments (snd (attach_file_to_allure p custom_name w))
           = allure_attachments w \<and>
         fs (snd (attach_file_to_allure p custom_name w)) = fs w \<and>
         stdout (snd (attach_file_to_allure p custom_name w)) =
           stdout w @ [''['' @ strftime_log (now w)
                       @ ''] Cannot attach file: File not found at '' @ p]"
  using assms
  by (simp add: attach_file_to_allure_def Let_def bind_def allure_step_def try_except_def
        os_path_exists_def Reporter_log_plain_eq)

theorem attach_missing_file_fails_soft_witness:
  "fs world0 ''out/missing.txt'' = None \<and>
   fst (attach_file_to_allure ''out/missing.txt'' None world0) = Inr () \<and>
   allure_attachments (snd (attach_file_to_allure ''out/missing.txt'' None world0)) = [] \<and>
   stdout (snd (attach_file_to_allure ''out/missing.txt'' None world0)) =
     [''[2024-03-09 14:05:00] Cannot attach file: File not found at out/missing.txt'']"
  using attach_missing_file_fails_soft [of world0 "''out/missing.txt''" None]
  by (simp add: world0_def clock0_log)

text \<open>
  C9. For every path at which a file exists, \<open>attach_file_to_allure\<close> attaches the
  bytes of the file under the given name, or under the base name without its extension
  when no name (or an empty one) is given, with the content type chosen from the
  lower-cased extension: plain text for \<open>.txt\<close>, JSON for \<open>.json\<close>, XML for
  \<open>.xml\<close>, HTML for \<open>.html\<close>, CSV for \<open>.csv\<close>, and plain text for every other
  extension.
\<close>

theorem attach_existing_file_by_extension:
  assumes "fs w p = Some (File content)"
  shows "fst (attach_file_to_allure p custom_name w) = Inr () \<and>
         allure_attachments (snd (attach_file_to_allure p custom_name w)) =
           allure_attachments w @
             [(content,
               str_or custom_name (fst (os_path_splitext (os_path_basename p))),
               (let ext = str_lower (snd (os_path_splitext p))
                in if ext = ''.txt'' then TEXT else if ext = ''.json'' then JSON
                   else if ext = ''.xml'' then XML else if ext = ''.html'' then HTML
                   else if ext = ''.csv'' then CSV else TEXT))]"
  using assms
  by (simp add: attach_file_to_allure_def Let_def bind_def allure_step_def try_except_def
        os_path_exists_def Reporter_log_plain_eq read_file_def allure_attach_def
        dict_get_def content_type_map_def)

theorem attach_existing_file_by_extension_witness:
  "fs world0 ''out/results.JSON'' = Some (File ''{}'') \<and>
   allure_attachments (snd (attach_file_to_allure ''out/results.JSON'' None world0)) =
     [(''{}'', ''results'', JSON)] \<and>
   allure_attachments (snd (attach_file_to_allure ''out/results.JSON'' (Some ''run'') world0)) =
     [(''{}'', ''run'', JSON)]"
  using attach_existing_file_by_extension [of world0 "''out/results.JSON''" "''{}''" None]
        attach_existing_file_by_extension [of world0 "''out/results.JSON''" "''{}''" "Some ''run''"]
  by (simp add: world0_def results_path str_or_def)

section \<open>The views\<close>

text \<open>
  C10. For every locator, every view and every behaviour of the driver,
  \<open>is_object_present\<close>, \<open>is_main_menu_visible\<close> and \<open>is_game_paused\<close> return a
  boolean and do not raise; when the driver's lookup raises, each of them returns
  \<open>False\<close>.
\<close>

theorem presence_checks_never_raise:
  "(\<exists>b. fst (is_object_present e self locator w) = Inr b) \<and>
   (\<exists>b. fst (is_main_menu_visible e self w) = Inr b) \<and>
   (\<exists>b. fst (is_game_paused e self w) = Inr b) \<and>
   (alt_find_object e (fst locator) (snd locator) = Inl ex \<longrightarrow>
      fst (is_object_present e self locator w) = Inr False) \<and>
   (alt_find_object e NAME ''MainMenuPanel'' = Inl ex \<longrightarrow>
      fst (is_main_menu_visible e self w) = Inr False) \<and>
   (alt_find_object e NAME ''ResumeButton'' = Inl ex \<longrightarrow>
      fst (is_game_paused e self w) = Inr False)"
  by (auto simp add: is_object_present_def is_main_menu_visible_def is_game_paused_def
        bind_def allure_step_def try_except_def AltDriver_find_def call_value_def raise_def
        ret_def self_find_object_eq Reporter_log_plain_eq
        split: option.splits sum.splits)

theorem presence_checks_never_raise_witness:
  "alt_find_object env0 NAME ''PlayButton'' = Inl (Exc LibraryError ''Object not found'') \<and>
   alt_find_object env0 NAME ''MainMenuPanel'' = Inl (Exc LibraryError ''Object not found'') \<and>
   alt_find_object env0 NAME ''ResumeButton'' = Inl (Exc LibraryError ''Object not found'') \<and>
   fst (is_object_present env0 view0 (NAME, ''PlayButton'') world0) = Inr False \<and>
   fst (is_main_menu_visible env0 view0 world0) = Inr False \<and>
   fst (is_game_paused env0 view0 world0) = Inr False"
  using presence_checks_never_raise
          [of env0 view0 "(NAME, ''PlayButton'')" world0 "Exc LibraryError ''Object not found''"]
  by (simp add: env0_def)

text \<open>
  C3. \<open>click_play_button\<close> looks the button up with \<open>self.find_object\<close>, a name that
  no class of the views binds. Whatever the scene holds, the call raises
  \<open>AttributeError\<close> for that name; its message names neither \<open>PlayButton\<close> nor a
  timeout, and it is not an \<open>AssertionError\<close>. The lookups the base class does define
  behave as the scenario expects: \<open>wait_for_object\<close> raises an \<open>AssertionError\<close>
  naming the element and the timeout (\<open>wait_for_object_absent\<close>), \<open>find_element\<close> one
  naming the element (\<open>find_element_absent\<close>), and after a failed test the screenshot
  \<open><test>_Failed.png\<close> is written when the primary driver delivers it
  (\<open>failure_screenshot_written\<close>).
\<close>

theorem click_play_button_raises_AttributeError:
  "fst (click_play_button e self w) =
     Inl (Raise (Exc AttributeError
        (quote @ class_name (view_class self) @ quote @ '' object has no attribute ''
         @ quote @ ''find_object'' @ quote)))"
  by (simp add: click_play_button_def bind_def allure_step_def self_find_object_eq)

theorem click_play_button_raises_AttributeError_witness:
  "fst (click_play_button env0 view0 world0) =
     Inl (Raise (Exc AttributeError
        (quote @ ''MainMenuView'' @ quote @ '' object has no attribute ''
         @ quote @ ''find_object'' @ quote)))"
  using click_play_button_raises_AttributeError [of env0 view0 world0]
  by (simp add: view0_def)

section \<open>Stopping the drivers\<close>

text \<open>
  C1 fails as stated: \<open>stop_all_drivers\<close> wraps the three stops in one \<open>try\<close>, so the
  first stop that raises ends the block. What holds instead, for every container, every
  outside and every world: \<open>stop_all_drivers\<close> does not raise; it stops the drivers that
  are present in the order primary, browser, mobile; a driver's stop is attempted exactly
  when no earlier attempted stop raised; and one line is logged, the error of the first
  stop that raised, or the success message when none did.
\<close>

theorem stop_all_drivers_stops_at_first_failure:
  "fst (stop_all_drivers e d w) = Inr () \<and>
   calls (snd (stop_all_drivers e d w)) = calls w
     @ (if alt_driver d \<noteq> None then [AltDriver_stop] else [])
     @ (if selenium_driver d \<noteq> None \<and> (alt_driver d = None \<or> alt_stop e = None)
        then [Chrome_quit] else [])
     @ (if appium_driver d \<noteq> None \<and> (alt_driver d = None \<or> alt_stop e = None)
           \<and> (selenium_driver d = None \<or> selenium_quit e = None)
        then [AppiumRemote_quit] else []) \<and>
   stdout (snd (stop_all_drivers e d w)) = stdout w
     @ [''['' @ strftime_log (now w) @ ''] ''
        @ (case (if alt_driver d \<noteq> None \<and> alt_stop e \<noteq> None then alt_stop e
                 else if selenium_driver d \<noteq> None \<and> selenium_quit e \<noteq> None
                      then selenium_quit e
                 else if appium_driver d \<noteq> None then appium_quit e else None) of
             None \<Rightarrow> ''All drivers stopped successfully''
           | Some ex \<Rightarrow> ''Error stopping drivers: '' @ str_exc ex)]"
  using stop_all_drivers_effect [of e d w] by (simp add: stop_calls_def)

theorem stop_all_drivers_stops_at_first_failure_witness:
  "fst (stop_all_drivers env_stop_fails drivers0 world0) = Inr () \<and>
   calls (snd (stop_all_drivers env_stop_fails drivers0 world0)) = [AltDriver_stop] \<and>
   stdout (snd (stop_all_drivers env_stop_fails drivers0 world0)) =
     [''[2024-03-09 14:05:00] Error stopping drivers: Connection closed''] \<and>
   calls (snd (stop_all_drivers env0 drivers0 world0)) =
     [AltDriver_stop, Chrome_quit, AppiumRemote_quit]"
  using stop_all_drivers_stops_at_first_failure [of env_stop_fails drivers0 world0]
        stop_all_drivers_stops_at_first_failure [of env0 drivers0 world0]
  by (simp add: inputs clock0_log)

text \<open>
  With all three drivers started and the primary driver's stop raising, neither the
  browser's nor the mobile driver's quit is attempted.
\<close>

theorem stop_independence_counterexample:
  "alt_driver drivers0 \<noteq> None \<and> selenium_driver drivers0 \<noteq> None \<and>
   appium_driver drivers0 \<noteq> None \<and>
   alt_stop env_stop_fails = Some (Exc LibraryError ''Connection closed'') \<and>
   Chrome_quit \<notin> set (calls (snd (stop_all_drivers env_stop_fails drivers0 world0))) \<and>
   AppiumRemote_quit \<notin> set (calls (snd (stop_all_drivers env_stop_fails drivers0 world0)))"
  using stop_all_drivers_effect [of env_stop_fails drivers0 world0]
  by (simp add: inputs stop_calls_def)

section \<open>The browser driver\<close>

text \<open>
  C8. For every configuration and every outside, whenever \<open>start_all_drivers\<close> returns a
  container, its browser handle is set if and only if the browser flag is enabled and the
  platform is WebGL; and when it is set, Chrome was started and then sent to the configured
  URL during that call.
\<close>

theorem selenium_started_iff_webgl:
  assumes "start_all_drivers cfg e w = (Inr d, w')"
  shows "(selenium_driver d \<noteq> None \<longleftrightarrow> RUNNING_WITH_SELENIUM cfg \<and> PLATFORM cfg = WEBGL) \<and>
         (selenium_driver d \<noteq> None \<longrightarrow>
            (\<exists>pre post. drop (length (calls w)) (calls w') =
               pre @ [Chrome_init [''--no-sandbox'', ''--disable-dev-shm-usage''],
                      Chrome_get (WEBGL_URL cfg)] @ post))"
  using assms by (rule start_all_drivers_selenium)

theorem selenium_started_iff_webgl_witness:
  "fst (start_all_drivers cfg_webgl env0 world0) =
     Inr \<lparr>alt_driver = Some (AltDriver ''127.0.0.1'' 13000 ''__default__''),
          appium_driver = None,
          selenium_driver = Some (Chrome [''--no-sandbox'', ''--disable-dev-shm-usage''])\<rparr> \<and>
   RUNNING_WITH_SELENIUM cfg_webgl \<and> PLATFORM cfg_webgl = WEBGL \<and>
   (\<exists>pre post. calls (snd (start_all_drivers cfg_webgl env0 world0)) =
      pre @ [Chrome_init [''--no-sandbox'', ''--disable-dev-shm-usage''],
             Chrome_get ''https://example.com/game''] @ post)"
proof -
  have "start_all_drivers cfg_webgl env0 world0 =
     (Inr \<lparr>alt_driver = Some (AltDriver ''127.0.0.1'' 13000 ''__default__''),
           appium_driver = None,
           selenium_driver = Some (Chrome [''--no-sandbox'', ''--disable-dev-shm-usage''])\<rparr>,
      snd (start_all_drivers cfg_webgl env0 world0))"
    using start_webgl by (cases "start_all_drivers cfg_webgl env0 world0") simp
  from selenium_started_iff_webgl [OF this] start_webgl show ?thesis
    by (simp add: inputs)
qed

section \<open>The lifecycle of a test class\<close>

text \<open>
  C2 fails as stated: the container exists only once \<open>start_all_drivers\<close> has returned,
  and the \<open>finally\<close> block stops drivers only \<open>if drivers\<close>. What holds instead, for
  every configuration, outside, request, list of notifications and world: the
  \<open>finally\<close> block of \<open>setup_drivers\<close> runs exactly once per class (its closing line
  is printed exactly once); when \<open>start_all_drivers\<close> returned a container, the teardown
  attempts the primary driver's stop, and then the other started drivers' as
  \<open>stop_all_drivers\<close> does; when \<open>start_all_drivers\<close> raised, the teardown attempts
  no stop at all.
\<close>

theorem class_teardown_once:
  "count_list (stdout (snd (run_class cfg e req ns w)))
       (''['' @ strftime_log (now w) @ ''] All drivers stopped and cleanup completed.'')
     = count_list (stdout w)
         (''['' @ strftime_log (now w) @ ''] All drivers stopped and cleanup completed.'') + 1 \<and>
   (\<forall>d. fst (start_all_drivers cfg e
              (snd (allure_step ''Initialize Test Configuration and Start All Drivers'' w)))
          = Inr d \<longrightarrow>
      filter is_stop (drop (length (calls w)) (calls (snd (run_class cfg e req ns w)))) =
        AltDriver_stop
        # (if selenium_driver d \<noteq> None \<and> alt_stop e = None then [Chrome_quit] else [])
        @ (if appium_driver d \<noteq> None \<and> alt_stop e = None
              \<and> (selenium_driver d = None \<or> selenium_quit e = None)
           then [AppiumRemote_quit] else [])) \<and>
   (\<forall>x. fst (start_all_drivers cfg e
              (snd (allure_step ''Initialize Test Configuration and Start All Drivers'' w)))
          = Inl x \<longrightarrow>
      filter is_stop (drop (length (calls w)) (calls (snd (run_class cfg e req ns w)))) = [])"
proof -
  let ?w0 = "snd (allure_step ''Initialize Test Configuration and Start All Drivers'' w)"
  let ?S = "case started cfg e w of None \<Rightarrow> [] | Some d \<Rightarrow> stop_calls e d"
  have m: "moved w (snd (run_class cfg e req ns w)) ?S 1" by (rule moved_run_class)
  have a: ?thesis if "\<And>d. fst (start_all_drivers cfg e ?w0) = Inr d \<Longrightarrow> alt_driver d \<noteq> None"
    using m moved_new_stops [OF m] that
    by (auto simp add: moved_def teardown_line_def started_def stop_calls_def
          split: sum.splits)
  show ?thesis
  proof (rule a)
    fix d assume "fst (start_all_drivers cfg e ?w0) = Inr d"
    then have "start_all_drivers cfg e ?w0 = (Inr d, snd (start_all_drivers cfg e ?w0))"
      by (cases "start_all_drivers cfg e ?w0") simp
    then show "alt_driver d \<noteq> None" by (rule start_all_drivers_alt)
  qed
qed

theorem class_teardown_once_witness:
  "fst (start_all_drivers cfg0 env0
          (snd (allure_step ''Initialize Test Configuration and Start All Drivers'' world0)))
     = Inr \<lparr>alt_driver = Some (AltDriver ''127.0.0.1'' 13000 ''__default__''),
            appium_driver = None, selenium_driver = None\<rparr> \<and>
   count_list (stdout (snd (run_class cfg0 env0 request0 [note1] world0)))
     ''[2024-03-09 14:05:00] All drivers stopped and cleanup completed.'' = 1 \<and>
   filter is_stop (calls (snd (run_class cfg0 env0 request0 [note1] world0)))
     = [AltDriver_stop]"
  using class_teardown_once [of cfg0 env0 request0 "[note1]" world0] start_cfg0
  by (simp add: world0_def clock0_log)

text \<open>
  With the mobile driver enabled and started, and the primary driver failing to connect,
  the class ends without any attempt to quit the mobile driver.
\<close>

theorem partial_start_counterexample:
  "RUNNING_WITH_APPIUM cfg_appium \<and> appium_connect env_no_game = None \<and>
   alt_connect env_no_game = Some (Exc LibraryError ''Connection refused'') \<and>
   AppiumRemote_init ''http://127.0.0.1:4723/wd/hub''
      [(''platformName'', CapStr ''Android''),
       (''automationName'', CapStr ''UiAutomator2''),
       (''newCommandTimeout'', CapInt 2000),
       (''autoGrantPermissions'', CapBool True),
       (''deviceName'', CapStr ''android''),
       (''appPackage'', CapStr ''com.example.app'')]
     \<in> set (calls (snd (run_class cfg_appium env_no_game request0 [] world0))) \<and>
   AppiumRemote_quit \<notin> set (calls (snd (run_class cfg_appium env_no_game request0 [] world0)))"
  by (simp add: run_no_game) (simp add: inputs)

section \<open>The log file\<close>

text \<open>
  C4 fails as stated: the file is named \<open>{testClassName}-UnityLogs-{runTimestamp}.txt\<close>,
  not \<open>{testClassName}-Logs-{runTimestamp}.txt\<close>. What holds instead: registering the
  listener creates \<open>screenshots-and-logs\<close> under the working directory; and for that
  listener, in every world where that directory is there and the log path is not a
  directory, a notification is appended to the file in that directory whose name is the name
  of the test class (\<open>UnknownTest\<close> without a class), \<open>-UnityLogs-\<close>, the time of the
  registration as \<open>%Y%m%d_%H%M%S\<close> and \<open>.txt\<close> (a name without a slash), and the
  name is entered in \<open>unity_logs\<close>.
\<close>

theorem unity_log_file_name:
  assumes "setup_unity_log_listener e d req w0 = (Inr (Some l), w1)"
      and "filename = (case cls req of Some c \<Rightarrow> c | None \<Rightarrow> ''UnknownTest'')
                       @ ''-UnityLogs-'' @ strftime_run (now w0) @ ''.txt''"
      and "CHR ''/'' \<notin> set filename"
      and "directory = os_path_join (os_getcwd e) ''screenshots-and-logs''"
      and "filepath = os_path_join directory filename"
      and "fs w directory = Some Dir"
      and "fs w filepath \<noteq> Some Dir"
  shows "fs w1 directory = Some Dir \<and>
         filepath = directory @ ''/'' @ filename \<and>
         fst (log_callback e l n ul w)
           = Inr (if map_of ul filename = None then ul @ [(filename, filepath)] else ul) \<and>
         fs (snd (log_callback e l n ul w)) =
           (fs w)(filepath \<mapsto> File (file_text (fs w filepath) @ message n @ newline
                       @ ''StackTrace : '' @ stack_trace n @ newline))"
  using assms by (rule unity_log_written)

theorem unity_log_file_name_witness:
  "setup_unity_log_listener env0 drivers0 request0 world0 = (Inr (Some listener0), world1) \<and>
   CHR ''/'' \<notin> set log_name0 \<and>
   fs world1 ''/home/ci/project/screenshots-and-logs'' = Some Dir \<and>
   fs world1 log_path0 = None \<and>
   log_path0 = ''/home/ci/project/screenshots-and-logs'' @ ''/'' @ log_name0 \<and>
   fst (log_callback env0 listener0 note1 [] world1) = Inr [(log_name0, log_path0)] \<and>
   fs (snd (log_callback env0 listener0 note1 [] world1)) log_path0 =
     Some (File (''Level loaded'' @ newline @ ''StackTrace : GameManager.Start ()'' @ newline))"
proof -
  have nd: "fs world1 log_path0 \<noteq> Some Dir" by (simp add: world1_facts)
  from unity_log_file_name
         [OF setup_listener0 log0_facts(1) log0_facts(2) log0_facts(3) log0_facts(4)
             world1_facts(1) nd, of note1 "[]"]
       setup_listener0 log0_facts(2) world1_facts
  show ?thesis
    by (simp add: file_text_def note1_def)
qed

text \<open>
  After the listener was registered and a notification for \<open>TestMainMenu\<close> arrived, no
  file with \<open>-Logs-\<close> in its name exists; the file with \<open>-UnityLogs-\<close> does.
\<close>

theorem unity_log_file_name_counterexample:
  "setup_unity_log_listener env0 drivers0 request0 world0 = (Inr (Some listener0), world1) \<and>
   fs (snd (log_callback env0 listener0 note1 [] world1))
     ''/home/ci/project/screenshots-and-logs/TestMainMenu-Logs-20240309_140500.txt'' = None \<and>
   fs (snd (log_callback env0 listener0 note1 [] world1))
     ''/home/ci/project/screenshots-and-logs/TestMainMenu-UnityLogs-20240309_140500.txt'' =
     Some (File (''Level loaded'' @ newline @ ''StackTrace : GameManager.Start ()'' @ newline))"
proof -
  have nd: "fs world1 log_path0 \<noteq> Some Dir" by (simp add: world1_facts)
  have none: "fs world1
     ''/home/ci/project/screenshots-and-logs/TestMainMenu-Logs-20240309_140500.txt'' = None"
    by (simp add: world1_def run_defs inputs)
  have a: "fs (snd (log_callback env0 listener0 note1 [] world1)) =
             (fs world1)(log_path0 \<mapsto> File (file_text (fs world1 log_path0) @ message note1
                @ newline @ ''StackTrace : '' @ stack_trace note1 @ newline))"
    using unity_log_written
         [OF setup_listener0 log0_facts(1) log0_facts(2) log0_facts(3) log0_facts(4)
             world1_facts(1) nd, of note1 "[]"]
    by blast
  have b: "fs (snd (log_callback env0 listener0 note1 [] world1)) log_path0 =
     Some (File (''Level loaded'' @ newline @ ''StackTrace : GameManager.Start ()'' @ newline))"
    unfolding a by (simp add: world1_facts(2) file_text_def note1_def)
  have c: "fs (snd (log_callback env0 listener0 note1 [] world1))
     ''/home/ci/project/screenshots-and-logs/TestMainMenu-Logs-20240309_140500.txt'' = None"
    unfolding a using none by (simp add: log_path0_def)
  from setup_listener0 b [unfolded log_path0_def] c show ?thesis by blast
qed

text \<open>
  C7. For the listener that the fixture registered, in every world where the log directory
  is there and the log path (a name without a slash in that directory) is not a directory:
  the notifications that arrive between setup and teardown are all in the log file, in
  arrival order, each as its message followed by its stack trace, after what the file held
  before; the flush attaches exactly those bytes under the file's name, and
  \<open>unity_logs\<close> is empty after it.
\<close>

theorem unity_logs_flushed_in_order:
  assumes "setup_unity_log_listener e d req w0 = (Inr (Some l), w1)"
      and "filename = (case cls req of Some c \<Rightarrow> c | None \<Rightarrow> ''UnknownTest'')
                       @ ''-UnityLogs-'' @ strftime_run (now w0) @ ''.txt''"
      and "CHR ''/'' \<notin> set filename"
      and "directory = os_path_join (os_getcwd e) ''screenshots-and-logs''"
      and "filepath = os_path_join directory filename"
      and "fs w directory = Some Dir"
      and "fs w filepath \<noteq> Some Dir"
      and "ns \<noteq> []"
      and "logged = file_text (fs w filepath)
             @ concat (map (\<lambda>n. message n @ newline @ ''StackTrace : '' @ stack_trace n @ newline) ns)"
  shows "\<exists>w2. deliver e (Some l) ns [] w = (Inr [(filename, filepath)], w2) \<and>
           fs w2 filepath = Some (File logged) \<and>
           fst (add_unity_logs_to_allure e [(filename, filepath)] w2) = Inr [] \<and>
           allure_attachments (snd (add_unity_logs_to_allure e [(filename, filepath)] w2)) =
             allure_attachments w @
               [(logged, filename,
                 (let ext = str_lower (snd (os_path_splitext filepath))
                  in if ext = ''.txt'' then TEXT else if ext = ''.json'' then JSON
                     else if ext = ''.xml'' then XML else if ext = ''.html'' then HTML
                     else if ext = ''.csv'' then CSV else TEXT))]"
  using assms by (rule unity_logs_flush_effect)

theorem unity_logs_flushed_in_order_witness:
  "setup_unity_log_listener env0 drivers0 request0 world0 = (Inr (Some listener0), world1) \<and>
   CHR ''/'' \<notin> set log_name0 \<and>
   fs world1 ''/home/ci/project/screenshots-and-logs'' = Some Dir \<and>
   fs world1 log_path0 = None \<and>
   fst (deliver env0 (Some listener0) [note1, note2] [] world1) = Inr [(log_name0, log_path0)] \<and>
   fs (snd (deliver env0 (Some listener0) [note1, note2] [] world1)) log_path0 =
     Some (File (''Level loaded'' @ newline @ ''StackTrace : GameManager.Start ()'' @ newline
                 @ ''Score 10'' @ newline @ ''StackTrace : Score.Add ()'' @ newline)) \<and>
   fst (add_unity_logs_to_allure env0 [(log_name0, log_path0)]
          (snd (deliver env0 (Some listener0) [note1, note2] [] world1))) = Inr [] \<and>
   allure_attachments (snd (add_unity_logs_to_allure env0 [(log_name0, log_path0)]
          (snd (deliver env0 (Some listener0) [note1, note2] [] world1)))) =
     [(''Level loaded'' @ newline @ ''StackTrace : GameManager.Start ()'' @ newline
       @ ''Score 10'' @ newline @ ''StackTrace : Score.Add ()'' @ newline, log_name0, TEXT)]"
proof -
  have nd: "fs world1 log_path0 \<noteq> Some Dir" by (simp add: world1_facts)
  have ne: "[note1, note2] \<noteq> []" by simp
  from unity_logs_flushed_in_order
         [OF setup_listener0 log0_facts(1) log0_facts(2) log0_facts(3) log0_facts(4)
             world1_facts(1) nd ne refl]
  obtain w2 where
      "deliver env0 (Some listener0) [note1, note2] [] world1 = (Inr [(log_name0, log_path0)], w2)"
      "fs w2 log_path0 = Some (File (file_text (fs world1 log_path0)
         @ concat (map (\<lambda>n. message n @ newline @ ''StackTrace : '' @ stack_trace n @ newline)
                     [note1, note2])))"
      "fst (add_unity_logs_to_allure env0 [(log_name0, log_path0)] w2) = Inr []"
      "allure_attachments (snd (add_unity_logs_to_allure env0 [(log_name0, log_path0)] w2)) =
         allure_attachments world1 @
           [(file_text (fs world1 log_path0)
             @ concat (map (\<lambda>n. message n @ newline @ ''StackTrace : '' @ stack_trace n @ newline)
                     [note1, note2]), log_name0,
             (let ext = str_lower (snd (os_path_splitext log_path0))
              in if ext = ''.txt'' then TEXT else if ext = ''.json'' then JSON
                 else if ext = ''.xml'' then XML else if ext = ''.html'' then HTML
                 else if ext = ''.csv'' then CSV else TEXT))]"
    by blast
  with setup_listener0 log0_facts(2) world1_facts show ?thesis
    by (simp add: log_path0_ext file_text_def note1_def note2_def)
qed

end
